theory Spec2Isabelle
  imports
    Complex_Main
    "HOL-Library.Multiset"
    "HOL-Library.Word"
    "HOL-Library.Char_ord"
    "HOL-Library.List_Lexorder"
    "HOL-Library.Option_ord"
    "HOL-Library.Product_Lexorder"
begin

section \<open>JavaScript values\<close>

text \<open>
  A JavaScript string is a sequence of 16-bit code units. \<open>str\<close> gives the JavaScript
  string of a literal of the source, one code unit for each of its characters.
\<close>

type_synonym char16 = "16 word"
type_synonym js_string = "char16 list"

definition str :: "string \<Rightarrow> js_string" where
  "str s = map of_char s"

text \<open>
  Request and response bodies are JSON; \<open>undefined\<close> (an absent property) is \<open>None\<close>.
  A JSON number is read as a real number.
\<close>

datatype json =
    JNull
  | JBool bool
  | JNum real
  | JStr js_string
  | JArr "json list"
  | JObj "(js_string \<times> json) list"

text \<open>JavaScript truthiness, as \<open>!x\<close> and \<open>x || y\<close> read it.\<close>

fun truthy :: "json \<Rightarrow> bool" where
  "truthy JNull = False"
| "truthy (JBool b) = b"
| "truthy (JNum n) = (n \<noteq> 0)"
| "truthy (JStr s) = (s \<noteq> [])"
| "truthy (JArr xs) = True"
| "truthy (JObj kvs) = True"

text \<open>\<open>a || b\<close> where \<open>a\<close> may be \<open>undefined\<close>.\<close>

definition js_or :: "json option \<Rightarrow> json \<Rightarrow> json" where
  "js_or a b = (case a of None \<Rightarrow> b | Some j \<Rightarrow> if truthy j then j else b)"

text \<open>Property read \<open>obj.k\<close> on a JSON value.\<close>

fun field :: "js_string \<Rightarrow> json \<Rightarrow> json option" where
  "field k (JObj kvs) = map_of kvs k"
| "field k j = None"

text \<open>An object literal; a property whose value is \<open>undefined\<close> is not serialised.\<close>

definition js_object :: "(js_string \<times> json option) list \<Rightarrow> json" where
  "js_object kvs = JObj (List.map_filter (\<lambda>(k, v). map_option (Pair k) v) kvs)"

text \<open>
  \<open>String.prototype.trim\<close> strips the white space and the line terminators of ECMAScript:
  TAB, LF, VT, FF, CR, SP, NBSP, U+1680, U+2000 to U+200A, U+2028, U+2029, U+202F,
  U+205F, U+3000 and U+FEFF.
\<close>

definition white_space :: "char16 \<Rightarrow> bool" where
  "white_space c =
     (c \<in> set [0x0009, 0x000A, 0x000B, 0x000C, 0x000D, 0x0020, 0x00A0, 0x1680,
                0x2028, 0x2029, 0x202F, 0x205F, 0x3000, 0xFEFF]
      \<or> (0x2000 \<le> c \<and> c \<le> 0x200A))"

definition trim :: "js_string \<Rightarrow> js_string" where
  "trim s = rev (dropWhile white_space (rev (dropWhile white_space s)))"

text \<open>\<open>!x\<close> for a property that is a string, \<open>null\<close> or \<open>undefined\<close>.\<close>

definition present :: "js_string option \<Rightarrow> bool" where
  "present x = (case x of None \<Rightarrow> False | Some s \<Rightarrow> s \<noteq> [])"

text \<open>\<open>xs.join(sep)\<close> on strings.\<close>

fun join :: "'a list \<Rightarrow> 'a list list \<Rightarrow> 'a list" where
  "join sep [] = []"
| "join sep [x] = x"
| "join sep (x # y # ys) = x @ sep @ join sep (y # ys)"

section \<open>The AI controller (aiController.js)\<close>

subsection \<open>The RAG service behind axios\<close>

text \<open>
  \<open>ragClient.post(url, data)\<close> either resolves with a response, of which the controller
  reads \<open>response.data\<close>, or rejects with an error (a refused connection, a timeout, a
  status outside 2xx). Of an error the \<open>catch\<close> blocks read \<open>error.code\<close>,
  \<open>error.message\<close> and \<open>error.response?.data?.error\<close>; the same record stands for any
  other exception thrown in a \<open>try\<close> block.
\<close>

record axios_error =
  err_code :: "js_string option"
  err_message :: js_string
  err_response_error :: "json option"

datatype rag_outcome = Resolved json | Rejected axios_error

record rag_call =
  endpoint :: string
  payload :: json

text \<open>
  The service is external: what it answers may depend on the call and on how many calls
  came before (a provider that is down may be up at the next attempt). The world keeps
  the history of the calls made together with their outcomes.
\<close>

record rag_world =
  service :: "nat \<Rightarrow> rag_call \<Rightarrow> rag_outcome"
  calls :: "(rag_call \<times> rag_outcome) list"

definition post :: "rag_world \<Rightarrow> rag_call \<Rightarrow> rag_outcome \<times> rag_world" where
  "post w c =
     (let r = service w (length (calls w)) c
      in (r, w\<lparr>calls := calls w @ [(c, r)]\<rparr>))"

subsection \<open>Requests and responses\<close>

text \<open>
  \<open>req.body\<close> is parsed JSON. \<open>filePath\<close> and \<open>fileId\<close> are strings when present, as
  aiRoutes.js documents them; \<open>question\<close> and \<open>docType\<close> are any JSON value. \<open>None\<close> is an
  absent property.
\<close>

record ai_body =
  filePath :: "js_string option"
  fileId :: "js_string option"
  question :: "json option"
  docType :: "json option"

record response =
  status :: nat
  body :: json

text \<open>\<open>res.json(x)\<close> and \<open>res.status(n).json(x)\<close>.\<close>

definition res_json :: "json \<Rightarrow> response" where
  "res_json j = \<lparr>status = 200, body = j\<rparr>"

definition res_status_json :: "nat \<Rightarrow> json \<Rightarrow> response" where
  "res_status_json n j = \<lparr>status = n, body = j\<rparr>"

definition failure :: "json \<Rightarrow> json" where
  "failure msg = JObj [(str ''success'', JBool False), (str ''error'', msg)]"

text \<open>
  The \<open>catch\<close> block the handlers share, up to the two message texts: 503 for a refused
  connection, 500 with the most specific message at hand otherwise.
\<close>

definition ai_catch :: "string \<Rightarrow> string \<Rightarrow> axios_error \<Rightarrow> response" where
  "ai_catch unavailable fallback e =
     (if err_code e = Some (str ''ECONNREFUSED'')
      then res_status_json 503 (failure (JStr (str unavailable)))
      else res_status_json 500
             (failure (js_or (err_response_error e)
                        (js_or (Some (JStr (err_message e))) (JStr (str fallback))))))"

definition file_path_required :: response where
  "file_path_required = res_status_json 400 (failure (JStr (str ''File path is required'')))"

subsection \<open>The handlers\<close>

text \<open>The request \<open>indexFile\<close> sends to the RAG service.\<close>

definition index_request :: "ai_body \<Rightarrow> rag_call" where
  "index_request b =
     \<lparr>endpoint = ''/index-file'',
      payload = js_object [(str ''file_path'', map_option JStr (filePath b)),
                           (str ''file_id'', map_option JStr (fileId b))]\<rparr>"


text \<open>The request \<open>askQuestion\<close> sends for the question text \<open>q\<close>: it carries \<open>q.trim()\<close>.\<close>

definition ask_request :: "ai_body \<Rightarrow> js_string \<Rightarrow> rag_call" where
  "ask_request b q =
     \<lparr>endpoint = ''/ask'',
      payload = js_object [(str ''file_path'', map_option JStr (filePath b)),
                           (str ''file_id'', map_option JStr (fileId b)),
                           (str ''question'', Some (JStr (trim q)))]\<rparr>"

text \<open>
  The TypeError of \<open>question.trim()\<close> on a question that is truthy and not a string: no
  such value has a method \<open>trim\<close>.
\<close>

definition trim_type_error :: axios_error where
  "trim_type_error = \<lparr>err_code = None,
                       err_message = str ''question.trim is not a function'',
                       err_response_error = None\<rparr>"

text \<open>
  In \<open>!question || !question.trim()\<close> a falsy question (absent, \<open>null\<close>, \<open>false\<close>, \<open>0\<close>,
  \<open>""\<close>) ends the test at once; a string is trimmed; on any other value the call of
  \<open>trim\<close> throws, and the \<open>catch\<close> block answers.
\<close>

definition askQuestion :: "rag_world \<Rightarrow> ai_body \<Rightarrow> response \<times> rag_world" where
  "askQuestion w b =
     (if \<not> present (filePath b) then (file_path_required, w)
      else
        (case question b of
           None \<Rightarrow> (res_status_json 400 (failure (JStr (str ''Question is required''))), w)
         | Some j \<Rightarrow>
             if \<not> truthy j
             then (res_status_json 400 (failure (JStr (str ''Question is required''))), w)
             else
               (case j of
                  JStr q \<Rightarrow>
                    if trim q = []
                    then (res_status_json 400 (failure (JStr (str ''Question is required''))), w)
                    else
                      (case post w (ask_request b q) of
                         (Resolved d, w') \<Rightarrow> (res_json d, w')
                       | (Rejected e, w') \<Rightarrow>
                           (ai_catch ''AI service is not available. Please ensure the RAG service is running.''
                                     ''Failed to get answer'' e, w'))
                | _ \<Rightarrow>
                    (ai_catch ''AI service is not available. Please ensure the RAG service is running.''
                              ''Failed to get answer'' trim_type_error, w))))"

text \<open>The request \<open>summarizeFile\<close> sends to the RAG service.\<close>

definition summarize_request :: "ai_body \<Rightarrow> rag_call" where
  "summarize_request b =
     \<lparr>endpoint = ''/summarize'',
      payload = js_object [(str ''file_path'', map_option JStr (filePath b)),
                           (str ''file_id'', map_option JStr (fileId b))]\<rparr>"

definition summarizeFile :: "rag_world \<Rightarrow> ai_body \<Rightarrow> response \<times> rag_world" where
  "summarizeFile w b =
     (if \<not> present (filePath b) then (file_path_required, w)
      else
        (case post w (summarize_request b) of
           (Resolved d, w') \<Rightarrow> (res_json d, w')
         | (Rejected e, w') \<Rightarrow>
             (ai_catch ''AI service is not available. Please ensure the RAG service is running.''
                       ''Failed to summarize file'' e, w')))"

definition validTypes :: "js_string list" where
  "validTypes = [str ''summary'', str ''report'', str ''outline'', str ''key_points'']"

text \<open>\<open>validTypes.includes(docType)\<close>: strict equality, so only a string can be found.\<close>

fun includes_type :: "json \<Rightarrow> bool" where
  "includes_type (JStr s) = (s \<in> set validTypes)"
| "includes_type j = False"

text \<open>\<open>const { docType = "summary" } = req.body\<close>: the default stands in for \<open>undefined\<close> only.\<close>

definition requested_kind :: "ai_body \<Rightarrow> json" where
  "requested_kind b = (case docType b of None \<Rightarrow> JStr (str ''summary'') | Some j \<Rightarrow> j)"

definition generateDocument :: "rag_world \<Rightarrow> ai_body \<Rightarrow> response \<times> rag_world" where
  "generateDocument w b =
     (let dt = requested_kind b in
      if \<not> present (filePath b) then (file_path_required, w)
      else if \<not> includes_type dt
      then (res_status_json 400
              (failure (JStr (str ''Invalid document type. Must be one of: ''
                              @ join (str '', '') validTypes))), w)
      else
        (case post w \<lparr>endpoint = ''/generate-doc'',
                       payload = js_object [(str ''file_path'', map_option JStr (filePath b)),
                                            (str ''file_id'', map_option JStr (fileId b)),
                                            (str ''doc_type'', Some dt)]\<rparr> of
           (Resolved d, w') \<Rightarrow> (res_json d, w')
         | (Rejected e, w') \<Rightarrow>
             (ai_catch ''AI service is not available'' ''Failed to generate document'' e, w')))"


text \<open>What a handler added to the history of provider calls.\<close>

definition new_calls :: "rag_world \<Rightarrow> rag_world \<Rightarrow> (rag_call \<times> rag_outcome) list" where
  "new_calls w w' = drop (length (calls w)) (calls w')"

text \<open>A failure response: its body has \<open>success: false\<close>.\<close>

definition is_failure :: "response \<Rightarrow> bool" where
  "is_failure r = (field (str ''success'') (body r) = Some (JBool False))"

subsection \<open>Sample providers and requests\<close>

definition econnrefused :: axios_error where
  "econnrefused = \<lparr>err_code = Some (str ''ECONNREFUSED''),
                    err_message = str ''connect ECONNREFUSED 127.0.0.1:8000'',
                    err_response_error = None\<rparr>"

definition indexed3 :: json where
  "indexed3 = JObj [(str ''success'', JBool True), (str ''message'', JStr (str ''File indexed'')),
                    (str ''num_chunks'', JNum 3)]"

text \<open>A provider that refuses the first connection and answers every later one.\<close>

definition down_then_up :: "nat \<Rightarrow> rag_call \<Rightarrow> rag_outcome" where
  "down_then_up n c = (if n = 0 then Rejected econnrefused else Resolved indexed3)"

definition world_down :: rag_world where
  "world_down = \<lparr>service = down_then_up, calls = []\<rparr>"

definition world_up :: rag_world where
  "world_up = \<lparr>service = (\<lambda>n c. Resolved indexed3), calls = []\<rparr>"





definition sample_body :: ai_body where
  "sample_body = \<lparr>filePath = Some (str ''uploads/a.pdf''), fileId = Some (str ''f1''),
                   question = Some (JStr (str ''  What is it?  '')),
                   docType = Some (JStr (str ''outline''))\<rparr>"

definition index_call :: rag_call where
  "index_call = \<lparr>endpoint = ''/index-file'',
                  payload = JObj [(str ''file_path'', JStr (str ''uploads/a.pdf'')),
                                  (str ''file_id'', JStr (str ''f1''))]\<rparr>"

definition ask_call :: rag_call where
  "ask_call = \<lparr>endpoint = ''/ask'',
                payload = JObj [(str ''file_path'', JStr (str ''uploads/a.pdf'')),
                                (str ''file_id'', JStr (str ''f1'')),
                                (str ''question'', JStr (str ''What is it?''))]\<rparr>"

definition summarize_call :: rag_call where
  "summarize_call = \<lparr>endpoint = ''/summarize'',
                payload = JObj [(str ''file_path'', JStr (str ''uploads/a.pdf'')),
                                (str ''file_id'', JStr (str ''f1''))]\<rparr>"

definition generate_call :: rag_call where
  "generate_call = \<lparr>endpoint = ''/generate-doc'',
                payload = JObj [(str ''file_path'', JStr (str ''uploads/a.pdf'')),
                                (str ''file_id'', JStr (str ''f1'')),
                                (str ''doc_type'', JStr (str ''outline''))]\<rparr>"

definition unavailable :: response where
  "unavailable = \<lparr>status = 503,
        body = JObj [(str ''success'', JBool False),
                     (str ''error'', JStr (str ''AI service is not available. Please ensure the RAG service is running.''))]\<rparr>"

section \<open>The drive: files, folders, versions (models and controllers)\<close>

subsection \<open>Documents\<close>

text \<open>
  The Mongoose schemas of File.js, Folder.js and FileVersion.js. An ObjectId is a natural
  number and a date is a number of milliseconds since the epoch. Every File document has
  the fields of the schema, Mongoose filling in the defaults. Left out are \<open>updatedAt\<close>
  and \<open>aiMetadata\<close>, which no handler below reads or writes.
\<close>

type_synonym oid = nat
type_synonym date = int

record share_info =
  isShared :: bool
  shareLink :: "js_string option"
  sharedAt :: "date option"

record file_doc =
  file_oid :: oid
  originalName :: js_string
  currentFileName :: js_string
  mimeType :: js_string
  file_size :: nat
  extension :: js_string
  folder :: "oid option"
  currentVersion :: int
  sharing :: share_info
  isStarred :: bool
  starredAt :: "date option"
  isDeleted :: bool
  deletedAt :: "date option"
  tags :: "js_string list"
  createdAt :: date

record folder_doc =
  folder_oid :: oid
  folder_name :: js_string
  parentFolder :: "oid option"
  folder_path :: js_string

record file_version =
  version_file :: oid
  versionNumber :: int
  fileName :: js_string
  version_originalName :: js_string
  version_size :: nat
  version_mimeType :: js_string

text \<open>
  The state the handlers share: the three collections in insertion order, the names of
  the files in the uploads directory, and the next fresh ObjectId.
\<close>

record drive =
  files :: "file_doc list"
  folders :: "folder_doc list"
  versions :: "file_version list"
  disk :: "js_string set"
  next_oid :: oid

text \<open>
  An id in a request is a string: \<open>NoId\<close> when it is absent, \<open>null\<close> or empty, \<open>BadId\<close> when
  it is not an ObjectId (Mongoose then throws a CastError, which every handler catches
  and answers with 500), \<open>Id i\<close> otherwise. A route parameter is never absent.
\<close>

datatype id_param = NoId | BadId | Id oid

text \<open>What multer leaves in \<open>req.file\<close>; \<open>up_ext\<close> is
  \<open>path.extname(req.file.originalname).toLowerCase()\<close>.\<close>

record upload =
  up_originalname :: js_string
  up_filename :: js_string
  up_mimetype :: js_string
  up_size :: nat
  up_ext :: js_string

text \<open>A response: the status, \<open>success\<close>, \<open>message\<close> and \<open>data\<close>. A message that embeds a
  number is given by its fixed part; the text of a caught error is left out.\<close>

record 'a reply =
  code :: nat
  success :: bool
  message :: "string option"
  data :: "'a option"

definition fail :: "nat \<Rightarrow> string \<Rightarrow> 'a reply" where
  "fail n msg = \<lparr>code = n, success = False, message = Some msg, data = None\<rparr>"

definition done_with :: "string \<Rightarrow> 'a \<Rightarrow> 'a reply" where
  "done_with msg d = \<lparr>code = 200, success = True, message = Some msg, data = Some d\<rparr>"

definition done_msg :: "string \<Rightarrow> 'a reply" where
  "done_msg msg = \<lparr>code = 200, success = True, message = Some msg, data = None\<rparr>"

definition listing :: "'a \<Rightarrow> 'a reply" where
  "listing d = \<lparr>code = 200, success = True, message = None, data = Some d\<rparr>"

subsection \<open>Mongoose and fs\<close>

text \<open>
  The collections are in memory and every query succeeds: of the exceptions the \<open>catch\<close>
  blocks answer with 500, the CastError of a malformed id (or number) and the
  ValidationError of \<open>save\<close> are modelled, a lost connection is not.
\<close>

text \<open>
  Schema validation, which \<open>save\<close> runs: a required string must not be empty. The
  documents of the collections passed it when they were stored, so a handler that leaves
  the required fields as they are saves a valid document; \<open>uploadFile\<close>,
  \<open>uploadNewVersion\<close> and \<open>restoreVersion\<close>, which assign them, save only a document
  that is valid, and otherwise \<open>save\<close> throws.
\<close>

definition valid_file :: "file_doc \<Rightarrow> bool" where
  "valid_file f = (originalName f \<noteq> [] \<and> currentFileName f \<noteq> [] \<and> mimeType f \<noteq> [])"

definition findById :: "drive \<Rightarrow> oid \<Rightarrow> file_doc option" where
  "findById s i = find (\<lambda>f. file_oid f = i) (files s)"

definition folder_findById :: "drive \<Rightarrow> oid \<Rightarrow> folder_doc option" where
  "folder_findById s i = find (\<lambda>d. folder_oid d = i) (folders s)"

text \<open>\<open>doc.save()\<close> on a document that was loaded from the collection.\<close>

definition save :: "file_doc \<Rightarrow> drive \<Rightarrow> drive" where
  "save f s = s\<lparr>files := map (\<lambda>g. if file_oid g = file_oid f then f else g) (files s)\<rparr>"

definition deleteMany :: "(file_doc \<Rightarrow> bool) \<Rightarrow> drive \<Rightarrow> drive" where
  "deleteMany P s = s\<lparr>files := filter (\<lambda>f. \<not> P f) (files s)\<rparr>"

text \<open>\<open>if (fs.existsSync(p)) fs.unlinkSync(p)\<close>.\<close>

definition unlink_if_exists :: "js_string \<Rightarrow> drive \<Rightarrow> drive" where
  "unlink_if_exists n s = s\<lparr>disk := disk s - {n}\<rparr>"

text \<open>A cursor's \<open>sort\<close> (ties in collection order) and \<open>limit\<close> (0 is no limit, a negative
  limit counts as its absolute value).\<close>

definition sort_asc :: "('a \<Rightarrow> 'k::linorder) \<Rightarrow> 'a list \<Rightarrow> 'a list" where
  "sort_asc k xs = sort_key k xs"

definition sort_desc :: "('a \<Rightarrow> 'k::linorder) \<Rightarrow> 'a list \<Rightarrow> 'a list" where
  "sort_desc k xs = rev (sort_key k (rev xs))"

definition limit_to :: "int \<Rightarrow> 'a list \<Rightarrow> 'a list" where
  "limit_to n xs = (if n = 0 then xs else take (nat \<bar>n\<bar>) xs)"

subsection \<open>Starred files and trash (featuresController.js)\<close>

definition getStarredFiles :: "drive \<Rightarrow> file_doc list reply" where
  "getStarredFiles s =
     listing (sort_desc starredAt (filter (\<lambda>f. isStarred f \<and> isDeleted f \<noteq> True) (files s)))"

definition toggleStar :: "date \<Rightarrow> drive \<Rightarrow> id_param \<Rightarrow> file_doc reply \<times> drive" where
  "toggleStar now s rid =
     (case rid of
        Id i \<Rightarrow>
          (case findById s i of
             None \<Rightarrow> (fail 404 ''File not found'', s)
           | Some f \<Rightarrow>
               (let f1 = f\<lparr>isStarred := \<not> isStarred f\<rparr>;
                    f2 = f1\<lparr>starredAt := (if isStarred f1 then Some now else None)\<rparr>
                in (done_with (if isStarred f2 then ''File starred'' else ''File unstarred'') f2,
                    save f2 s)))
      | _ \<Rightarrow> (fail 500 ''Failed to toggle star'', s))"

text \<open>One entry of the trash listing: the file with its expiry.\<close>

record trash_entry =
  entry_file :: file_doc
  daysRemaining :: int
  expiryDate :: date

definition day_ms :: int where
  "day_ms = 24 * 60 * 60 * 1000"

text \<open>\<open>Math.ceil(a / b)\<close> for a positive \<open>b\<close>.\<close>

definition ceil_div :: "int \<Rightarrow> int \<Rightarrow> int" where
  "ceil_div a b = - ((- a) div b)"

definition with_expiry :: "date \<Rightarrow> file_doc \<Rightarrow> trash_entry" where
  "with_expiry now f =
     (let deleted = (case deletedAt f of None \<Rightarrow> 0 | Some d \<Rightarrow> d);
          expiry = deleted + 30 * day_ms
      in \<lparr>entry_file = f,
          daysRemaining = max 0 (ceil_div (expiry - now) day_ms),
          expiryDate = expiry\<rparr>)"

definition getTrash :: "date \<Rightarrow> drive \<Rightarrow> trash_entry list reply" where
  "getTrash now s =
     listing (map (with_expiry now) (sort_desc deletedAt (filter (\<lambda>f. isDeleted f = True) (files s))))"

definition moveToTrash :: "date \<Rightarrow> drive \<Rightarrow> id_param \<Rightarrow> file_doc reply \<times> drive" where
  "moveToTrash now s rid =
     (case rid of
        Id i \<Rightarrow>
          (case findById s i of
             None \<Rightarrow> (fail 404 ''File not found'', s)
           | Some f \<Rightarrow>
               (let f1 = f\<lparr>isDeleted := True\<rparr>;
                    f2 = f1\<lparr>deletedAt := Some now\<rparr>
                in (done_with ''File moved to trash'' f2, save f2 s)))
      | _ \<Rightarrow> (fail 500 ''Failed to move to trash'', s))"

definition restoreFromTrash :: "drive \<Rightarrow> id_param \<Rightarrow> file_doc reply \<times> drive" where
  "restoreFromTrash s rid =
     (case rid of
        Id i \<Rightarrow>
          (case findById s i of
             None \<Rightarrow> (fail 404 ''File not found'', s)
           | Some f \<Rightarrow>
               (let f1 = f\<lparr>isDeleted := False\<rparr>;
                    f2 = f1\<lparr>deletedAt := None\<rparr>
                in (done_with ''File restored from trash'' f2, save f2 s)))
      | _ \<Rightarrow> (fail 500 ''Failed to restore file'', s))"

definition permanentDelete :: "drive \<Rightarrow> id_param \<Rightarrow> unit reply \<times> drive" where
  "permanentDelete s rid =
     (case rid of
        Id i \<Rightarrow>
          (case findById s i of
             None \<Rightarrow> (fail 404 ''File not found'', s)
           | Some f \<Rightarrow>
               (done_msg ''File permanently deleted'',
                deleteMany (\<lambda>g. file_oid g = i) (unlink_if_exists (currentFileName f) s)))
      | _ \<Rightarrow> (fail 500 ''Failed to permanently delete file'', s))"

text \<open>The two bulk deletions answer with the number of files deleted.\<close>

definition emptyTrash :: "drive \<Rightarrow> nat reply \<times> drive" where
  "emptyTrash s =
     (let trashedFiles = filter (\<lambda>f. isDeleted f = True) (files s);
          s1 = foldl (\<lambda>t f. unlink_if_exists (currentFileName f) t) s trashedFiles
      in (\<lparr>code = 200, success = True, message = None, data = Some (length trashedFiles)\<rparr>,
          deleteMany (\<lambda>f. isDeleted f = True) s1))"

definition expired :: "date \<Rightarrow> file_doc \<Rightarrow> bool" where
  "expired cutoff f =
     (isDeleted f = True \<and> (case deletedAt f of None \<Rightarrow> False | Some d \<Rightarrow> d < cutoff))"

definition autoCleanupTrash :: "date \<Rightarrow> drive \<Rightarrow> nat reply \<times> drive" where
  "autoCleanupTrash now s =
     (let thirtyDaysAgo = now - 30 * day_ms;
          expiredFiles = filter (expired thirtyDaysAgo) (files s);
          s1 = foldl (\<lambda>t f. unlink_if_exists (currentFileName f) t) s expiredFiles
      in (\<lparr>code = 200, success = True, message = None, data = Some (length expiredFiles)\<rparr>,
          deleteMany (expired thirtyDaysAgo) s1))"

text \<open>\<open>file.tags = tags || []\<close>; the schema trims every tag.\<close>

definition updateTags :: "drive \<Rightarrow> id_param \<Rightarrow> js_string list option \<Rightarrow> file_doc reply \<times> drive" where
  "updateTags s rid ts =
     (case rid of
        Id i \<Rightarrow>
          (case findById s i of
             None \<Rightarrow> (fail 404 ''File not found'', s)
           | Some f \<Rightarrow>
               (let f1 = f\<lparr>tags := map trim (case ts of None \<Rightarrow> [] | Some xs \<Rightarrow> xs)\<rparr>
                in (done_with ''Tags updated'' f1, save f1 s)))
      | _ \<Rightarrow> (fail 500 ''Failed to update tags'', s))"

text \<open>\<open>limit\<close> is \<open>parseInt(req.query.limit)\<close> with 20 for an absent parameter; \<open>None\<close> is
  \<open>NaN\<close>, which the query refuses.\<close>

definition getRecentFiles :: "drive \<Rightarrow> int option \<Rightarrow> file_doc list reply" where
  "getRecentFiles s parsed =
     (case parsed of
        None \<Rightarrow> fail 500 ''Failed to fetch recent files''
      | Some n \<Rightarrow>
          listing (limit_to n (sort_desc createdAt (filter (\<lambda>f. isDeleted f \<noteq> True) (files s)))))"

subsection \<open>Files (fileController.js)\<close>

text \<open>\<open>x || null\<close> for an id that has passed the casts.\<close>

definition or_null :: "id_param \<Rightarrow> oid option" where
  "or_null p = (case p of Id i \<Rightarrow> Some i | _ \<Rightarrow> None)"

definition getFiles :: "drive \<Rightarrow> id_param \<Rightarrow> file_doc list reply" where
  "getFiles s fld =
     (if fld = BadId then fail 500 ''Failed to fetch files''
      else listing (sort_asc originalName
             (filter (\<lambda>f. folder f = or_null fld \<and> isDeleted f \<noteq> True) (files s))))"

text \<open>\<open>new File({...})\<close> in \<open>uploadFile\<close>: the fields it names, the schema's defaults for the
  others.\<close>

definition new_file :: "date \<Rightarrow> oid \<Rightarrow> upload \<Rightarrow> oid option \<Rightarrow> file_doc" where
  "new_file now i u fld =
     \<lparr>file_oid = i,
      originalName = trim (up_originalname u),
      currentFileName = up_filename u,
      mimeType = up_mimetype u,
      file_size = up_size u,
      extension = up_ext u,
      folder = fld,
      currentVersion = 1,
      sharing = \<lparr>isShared = False, shareLink = None, sharedAt = None\<rparr>,
      isStarred = False,
      starredAt = None,
      isDeleted = False,
      deletedAt = None,
      tags = [],
      createdAt = now\<rparr>"

definition uploadFile :: "date \<Rightarrow> drive \<Rightarrow> upload option \<Rightarrow> id_param \<Rightarrow> file_doc reply \<times> drive" where
  "uploadFile now s req_file fld =
     (case req_file of
        None \<Rightarrow> (fail 400 ''No file provided'', s)
      | Some u \<Rightarrow>
          if fld = BadId
          then (fail 500 ''Failed to upload file'', unlink_if_exists (up_filename u) s)
          else if fld \<noteq> NoId \<and> or_null fld \<notin> Some ` folder_oid ` set (folders s)
          then (if up_filename u \<in> disk s
                then (fail 404 ''Target folder not found'', unlink_if_exists (up_filename u) s)
                else (fail 500 ''Failed to upload file'', s))
          else
            (let f = new_file now (next_oid s) u (or_null fld)
             in if valid_file f
                then (\<lparr>code = 201, success = True, message = Some ''File uploaded successfully'',
                       data = Some f\<rparr>,
                      s\<lparr>files := files s @ [f], next_oid := Suc (next_oid s)\<rparr>)
                else (fail 500 ''Failed to upload file'', unlink_if_exists (up_filename u) s)))"

definition moveFile :: "drive \<Rightarrow> id_param \<Rightarrow> id_param \<Rightarrow> file_doc reply \<times> drive" where
  "moveFile s rid target =
     (case rid of
        Id i \<Rightarrow>
          (case findById s i of
             None \<Rightarrow> (fail 404 ''File not found'', s)
           | Some f \<Rightarrow>
               if target = BadId then (fail 500 ''Failed to move file'', s)
               else if target \<noteq> NoId \<and> or_null target \<notin> Some ` folder_oid ` set (folders s)
               then (fail 404 ''Target folder not found'', s)
               else if \<exists>g \<in> set (files s). originalName g = originalName f
                          \<and> folder g = or_null target \<and> file_oid g \<noteq> i
               then (fail 400 ''A file with this name already exists in the target folder'', s)
               else (let f1 = f\<lparr>folder := or_null target\<rparr>
                     in (done_with ''File moved successfully'' f1, save f1 s)))
      | _ \<Rightarrow> (fail 500 ''Failed to move file'', s))"

definition renameFile :: "drive \<Rightarrow> id_param \<Rightarrow> js_string option \<Rightarrow> file_doc reply \<times> drive" where
  "renameFile s rid name =
     (case name of
        None \<Rightarrow> (fail 400 ''File name is required'', s)
      | Some n \<Rightarrow>
          if n = [] \<or> trim n = [] then (fail 400 ''File name is required'', s)
          else
            (case rid of
               Id i \<Rightarrow>
                 (case findById s i of
                    None \<Rightarrow> (fail 404 ''File not found'', s)
                  | Some f \<Rightarrow>
                      (let newName = (if of_char CHR ''.'' \<in> set (trim n) then trim n
                                      else trim n @ extension f)
                       in if \<exists>g \<in> set (files s). originalName g = newName
                                 \<and> folder g = folder f \<and> file_oid g \<noteq> i
                          then (fail 400 ''A file with this name already exists in this folder'', s)
                          else (let f1 = f\<lparr>originalName := trim newName\<rparr>
                                in (done_with ''File renamed successfully'' f1, save f1 s))))
             | _ \<Rightarrow> (fail 500 ''Failed to rename file'', s)))"

definition deleteFile :: "drive \<Rightarrow> id_param \<Rightarrow> unit reply \<times> drive" where
  "deleteFile s rid =
     (case rid of
        Id i \<Rightarrow>
          (case findById s i of
             None \<Rightarrow> (fail 404 ''File not found'', s)
           | Some f \<Rightarrow>
               (let s1 = unlink_if_exists (currentFileName f) s;
                    vs = filter (\<lambda>v. version_file v = i) (versions s1);
                    s2 = foldl (\<lambda>t v. unlink_if_exists (fileName v) t) s1 vs;
                    s3 = s2\<lparr>versions := filter (\<lambda>v. version_file v \<noteq> i) (versions s2)\<rparr>
                in (done_msg ''File deleted successfully'', deleteMany (\<lambda>g. file_oid g = i) s3)))
      | _ \<Rightarrow> (fail 500 ''Failed to delete file'', s))"

subsection \<open>Sharing (shareController.js)\<close>

text \<open>\<open>link\<close> is what \<open>nanoid(10)\<close> returns; the reply carries the share link.\<close>

definition enableSharing :: "date \<Rightarrow> drive \<Rightarrow> id_param \<Rightarrow> js_string \<Rightarrow> js_string reply \<times> drive" where
  "enableSharing now s rid link =
     (case rid of
        Id i \<Rightarrow>
          (case findById s i of
             None \<Rightarrow> (fail 404 ''File not found'', s)
           | Some f \<Rightarrow>
               (case (if isShared (sharing f) \<and> present (shareLink (sharing f))
                      then shareLink (sharing f) else None) of
                  Some existing \<Rightarrow> (done_with ''File is already shared'' existing, s)
                | None \<Rightarrow>
                    (let f1 = f\<lparr>sharing := \<lparr>isShared = True, shareLink = Some link,
                                              sharedAt = Some now\<rparr>\<rparr>
                     in (done_with ''Share link generated successfully'' link, save f1 s))))
      | _ \<Rightarrow> (fail 500 ''Failed to enable sharing'', s))"

definition disableSharing :: "drive \<Rightarrow> id_param \<Rightarrow> unit reply \<times> drive" where
  "disableSharing s rid =
     (case rid of
        Id i \<Rightarrow>
          (case findById s i of
             None \<Rightarrow> (fail 404 ''File not found'', s)
           | Some f \<Rightarrow>
               (let f1 = f\<lparr>sharing := \<lparr>isShared = False, shareLink = None, sharedAt = None\<rparr>\<rparr>
                in (done_msg ''Sharing disabled successfully'', save f1 s)))
      | _ \<Rightarrow> (fail 500 ''Failed to disable sharing'', s))"

subsection \<open>Versions (versionController.js)\<close>

definition version_of :: "file_doc \<Rightarrow> file_version" where
  "version_of f =
     \<lparr>version_file = file_oid f,
      versionNumber = currentVersion f,
      fileName = currentFileName f,
      version_originalName = originalName f,
      version_size = file_size f,
      version_mimeType = mimeType f\<rparr>"

definition uploadNewVersion :: "drive \<Rightarrow> id_param \<Rightarrow> upload option \<Rightarrow> file_doc reply \<times> drive" where
  "uploadNewVersion s rid req_file =
     (case req_file of
        None \<Rightarrow> (fail 400 ''No file provided'', s)
      | Some u \<Rightarrow>
          (case rid of
             Id i \<Rightarrow>
               (case findById s i of
                  None \<Rightarrow>
                    (if up_filename u \<in> disk s
                     then (fail 404 ''File not found'', unlink_if_exists (up_filename u) s)
                     else (fail 500 ''Failed to upload new version'', s))
                | Some f \<Rightarrow>
                    (let s1 = s\<lparr>versions := versions s @ [version_of f]\<rparr>;
                         f1 = f\<lparr>currentFileName := up_filename u,
                                originalName := trim (up_originalname u),
                                mimeType := up_mimetype u,
                                file_size := up_size u,
                                extension := up_ext u,
                                currentVersion := currentVersion f + 1\<rparr>
                     in if valid_file f1
                        then (done_with ''File updated'' f1, save f1 s1)
                        else (fail 500 ''Failed to upload new version'',
                              unlink_if_exists (up_filename u) s1)))
           | _ \<Rightarrow> (fail 500 ''Failed to upload new version'', unlink_if_exists (up_filename u) s)))"

text \<open>
  In \<open>uploadNewVersion\<close> the record of the current version is saved before the file is
  saved: it stays when the new values of the file fail validation.
\<close>

text \<open>
  \<open>versionNum\<close> is \<open>parseInt(req.params.versionNumber)\<close>, \<open>None\<close> for \<open>NaN\<close>, which is equal
  to no version and which the version query refuses; \<open>newFileName\<close> is the name built from
  \<open>Date.now()\<close>. The record of the current version is saved before the disk is looked at.
\<close>

definition restoreVersion ::
    "drive \<Rightarrow> id_param \<Rightarrow> int option \<Rightarrow> js_string \<Rightarrow> file_doc reply \<times> drive" where
  "restoreVersion s rid versionNum newFileName =
     (case rid of
        Id i \<Rightarrow>
          (case findById s i of
             None \<Rightarrow> (fail 404 ''File not found'', s)
           | Some f \<Rightarrow>
               if versionNum = Some (currentVersion f)
               then (fail 400 ''This is already the current version'', s)
               else
                 (case versionNum of
                    None \<Rightarrow> (fail 500 ''Failed to restore version'', s)
                  | Some n \<Rightarrow>
                      (case find (\<lambda>v. version_file v = i \<and> versionNumber v = n) (versions s) of
                         None \<Rightarrow> (fail 404 ''Version not found'', s)
                       | Some v \<Rightarrow>
                           (let s1 = s\<lparr>versions := versions s @ [version_of f]\<rparr>
                            in if fileName v \<in> disk s1
                               then
                                 (let s2 = s1\<lparr>disk := insert newFileName (disk s1)\<rparr>;
                                      f1 = f\<lparr>currentFileName := newFileName,
                                             originalName := trim (version_originalName v),
                                             file_size := version_size v,
                                             mimeType := version_mimeType v,
                                             currentVersion := currentVersion f + 1\<rparr>
                                  in if valid_file f1
                                     then (done_with ''Restored'' f1, save f1 s2)
                                     else (fail 500 ''Failed to restore version'', s2))
                               else (fail 404 ''Version file not found on server'', s1)))))
      | _ \<Rightarrow> (fail 500 ''Failed to restore version'', s))"

subsection \<open>Folders (folderController.js)\<close>

text \<open>
  \<open>deleteFolder\<close> deletes the folder, the folders whose path matches the regular
  expression \<open>^path/\<close>, and every file in one of them. \<open>regex_test p x\<close> stands for MongoDB's
  test of the string \<open>x\<close> against the pattern \<open>p\<close>.
\<close>

definition deleteFolder ::
    "(js_string \<Rightarrow> js_string \<Rightarrow> bool) \<Rightarrow> drive \<Rightarrow> id_param \<Rightarrow> unit reply \<times> drive" where
  "deleteFolder regex_test s rid =
     (case rid of
        Id i \<Rightarrow>
          (case folder_findById s i of
             None \<Rightarrow> (fail 404 ''Folder not found'', s)
           | Some d \<Rightarrow>
               (let allSubfolders =
                      filter (\<lambda>e. regex_test (str ''^'' @ folder_path d @ str ''/'') (folder_path e)) (folders s);
                    folderIds = i # map folder_oid allSubfolders;
                    in_folders = (\<lambda>f. case folder f of None \<Rightarrow> False | Some j \<Rightarrow> j \<in> set folderIds);
                    filesToDelete = filter in_folders (files s);
                    s1 = foldl (\<lambda>t f. unlink_if_exists (currentFileName f) t) s filesToDelete;
                    s2 = deleteMany in_folders s1
                in (done_msg ''Folder and all contents deleted successfully'',
                    s2\<lparr>folders := filter (\<lambda>e. folder_oid e \<notin> set folderIds) (folders s2)\<rparr>)))
      | _ \<Rightarrow> (fail 500 ''Failed to delete folder'', s))"

text \<open>
  \<open>getFolderById\<close> answers with the folder, its subfolders and its files, both sorted by
  name: \<open>File.find({ folder: id })\<close>, with no condition on \<open>isDeleted\<close>. Of the parent
  folder \<open>populate\<close> puts in the id, the name and the path.
\<close>

record folder_contents =
  the_folder :: folder_doc
  populated_parent :: "(oid \<times> js_string \<times> js_string) option"
  subfolders :: "folder_doc list"
  folder_files :: "file_doc list"

definition getFolderById :: "drive \<Rightarrow> id_param \<Rightarrow> folder_contents reply" where
  "getFolderById s rid =
     (case rid of
        Id i \<Rightarrow>
          (case folder_findById s i of
             None \<Rightarrow> fail 404 ''Folder not found''
           | Some d \<Rightarrow>
               listing
                 \<lparr>the_folder = d,
                  populated_parent =
                    (case parentFolder d of
                       None \<Rightarrow> None
                     | Some p \<Rightarrow> map_option (\<lambda>e. (folder_oid e, folder_name e, folder_path e))
                                   (folder_findById s p)),
                  subfolders = sort_asc folder_name (filter (\<lambda>e. parentFolder e = Some i) (folders s)),
                  folder_files = sort_asc originalName (filter (\<lambda>f. folder f = Some i) (files s))\<rparr>)
      | _ \<Rightarrow> fail 500 ''Failed to fetch folder'')"

text \<open>\<open>getDriveContents\<close>, the sibling of \<open>getFolderById\<close> in fileController.js, lists the
  folders and the files of a folder (or of the root), the files without the trashed ones.\<close>

definition getDriveContents :: "drive \<Rightarrow> id_param \<Rightarrow> (folder_doc list \<times> file_doc list) reply" where
  "getDriveContents s fld =
     (if fld = BadId then fail 500 ''Failed to fetch drive contents''
      else listing
             (sort_asc folder_name (filter (\<lambda>e. parentFolder e = or_null fld) (folders s)),
              sort_asc originalName
                (filter (\<lambda>f. folder f = or_null fld \<and> isDeleted f \<noteq> True) (files s))))"

subsection \<open>The requests that write the File collection\<close>

datatype request =
    ToggleStar id_param
  | MoveToTrash id_param
  | RestoreFromTrash id_param
  | PermanentDelete id_param
  | EmptyTrash
  | AutoCleanupTrash
  | UpdateTags id_param "js_string list option"
  | UploadFile "upload option" id_param
  | MoveFile id_param id_param
  | RenameFile id_param "js_string option"
  | DeleteFile id_param
  | EnableSharing id_param js_string
  | DisableSharing id_param
  | UploadNewVersion id_param "upload option"
  | RestoreVersion id_param "int option" js_string
  | DeleteFolder id_param

text \<open>The state after a request, served at time \<open>now\<close>.\<close>

fun handle :: "date \<Rightarrow> (js_string \<Rightarrow> js_string \<Rightarrow> bool) \<Rightarrow> drive \<Rightarrow> request \<Rightarrow> drive" where
  "handle now rx s (ToggleStar i) = snd (toggleStar now s i)"
| "handle now rx s (MoveToTrash i) = snd (moveToTrash now s i)"
| "handle now rx s (RestoreFromTrash i) = snd (restoreFromTrash s i)"
| "handle now rx s (PermanentDelete i) = snd (permanentDelete s i)"
| "handle now rx s EmptyTrash = snd (emptyTrash s)"
| "handle now rx s AutoCleanupTrash = snd (autoCleanupTrash now s)"
| "handle now rx s (UpdateTags i ts) = snd (updateTags s i ts)"
| "handle now rx s (UploadFile u fld) = snd (uploadFile now s u fld)"
| "handle now rx s (MoveFile i target) = snd (moveFile s i target)"
| "handle now rx s (RenameFile i name) = snd (renameFile s i name)"
| "handle now rx s (DeleteFile i) = snd (deleteFile s i)"
| "handle now rx s (EnableSharing i link) = snd (enableSharing now s i link)"
| "handle now rx s (DisableSharing i) = snd (disableSharing s i)"
| "handle now rx s (UploadNewVersion i u) = snd (uploadNewVersion s i u)"
| "handle now rx s (RestoreVersion i n name) = snd (restoreVersion s i n name)"
| "handle now rx s (DeleteFolder i) = snd (deleteFolder rx s i)"

text \<open>The invariant of the star: \<open>starredAt\<close> is a date exactly when \<open>isStarred\<close> is true.\<close>

definition star_inv :: "file_doc \<Rightarrow> bool" where
  "star_inv f = ((starredAt f \<noteq> None) = isStarred f)"

definition drive_inv :: "drive \<Rightarrow> bool" where
  "drive_inv s = (\<forall>f \<in> set (files s). star_inv f)"

text \<open>Ids are unique in the collection, and \<open>next_oid\<close> is above all of them.\<close>

definition well_formed :: "drive \<Rightarrow> bool" where
  "well_formed s =
     (distinct (map file_oid (files s)) \<and> (\<forall>f \<in> set (files s). file_oid f < next_oid s))"

text \<open>
  The star of \<open>g\<close> is the star the file of \<open>s\<close> with the id of \<open>g\<close> has; when \<open>s\<close> has no
  file of that id (\<open>g\<close> is new), it is the default: not starred, \<open>starredAt\<close> \<open>null\<close>.
\<close>

definition star_kept :: "drive \<Rightarrow> file_doc \<Rightarrow> bool" where
  "star_kept s g =
     (case findById s (file_oid g) of
        Some f \<Rightarrow> isStarred g = isStarred f \<and> starredAt g = starredAt f
      | None \<Rightarrow> isStarred g = False \<and> starredAt g = None)"

text \<open>
  For the proofs: \<open>g\<close> has the star of a file of \<open>s\<close> with its id, or is the file
  \<open>uploadFile\<close> creates, with the id \<open>next_oid s\<close> and the default star.
\<close>

definition star_origin :: "drive \<Rightarrow> file_doc \<Rightarrow> bool" where
  "star_origin s g =
     ((\<exists>f \<in> set (files s). file_oid f = file_oid g \<and> isStarred f = isStarred g
                              \<and> starredAt f = starredAt g)
      \<or> (file_oid g = next_oid s \<and> isStarred g = False \<and> starredAt g = None))"

text \<open>The files a list response carries (none when the request failed).\<close>

definition listed :: "'a list reply \<Rightarrow> 'a list" where
  "listed r = (case data r of None \<Rightarrow> [] | Some xs \<Rightarrow> xs)"

subsection \<open>A sample drive\<close>

text \<open>A folder and three files: a plain one and a starred one at the root, and one in the
  folder that is in the trash.\<close>

definition sample_upload :: upload where
  "sample_upload = \<lparr>up_originalname = str ''notes.txt'', up_filename = str ''17-notes.txt'',
                     up_mimetype = str ''text/plain'', up_size = 12, up_ext = str ''.txt''\<rparr>"

definition docs_folder :: folder_doc where
  "docs_folder = \<lparr>folder_oid = 9, folder_name = str ''docs'', parentFolder = None,
                   folder_path = str ''/docs''\<rparr>"

definition plain_file :: file_doc where
  "plain_file = new_file 1000 1 sample_upload None"

definition trashed_file :: file_doc where
  "trashed_file = (new_file 2000 2 sample_upload (Some 9))
       \<lparr>originalName := str ''old.txt'', currentFileName := str ''18-old.txt'',
        isDeleted := True, deletedAt := Some 3000\<rparr>"

definition starred_file :: file_doc where
  "starred_file = (new_file 2500 3 sample_upload None)
       \<lparr>originalName := str ''fav.txt'', currentFileName := str ''19-fav.txt'',
        isStarred := True, starredAt := Some 4000\<rparr>"

definition sample_drive :: drive where
  "sample_drive = \<lparr>files = [plain_file, trashed_file, starred_file], folders = [docs_folder],
                    versions = [],
                    disk = {str ''17-notes.txt'', str ''18-old.txt'', str ''19-fav.txt''},
                    next_oid = 10\<rparr>"

text \<open>An upload whose original name is blank.\<close>

definition blank_upload :: upload where
  "blank_upload = sample_upload\<lparr>up_originalname := str ''   ''\<rparr>"

section \<open>The retrieval core of the RAG service\<close>

text \<open>
  Of the Python service (chunker.py, vector_store.py, main.py) the sources hold only the
  README and the controller that calls it. The chunker and the vector
  index below follow the specification, sections 3, 4.2 and 4.3. Similarity scores are
  real numbers.
\<close>

datatype rag_error =
    UnsupportedFormatError
  | EmptyContentError
  | InvalidChunkConfigError
  | DimensionMismatchError
  | IndexNotFoundError

text \<open>Modelled from the spec: the white space at which the tokenizer of chunker.py
  (missing) splits a text: TAB, LF, VT, FF, CR, SP and NBSP. The texts of the Python
  service are strings of 8-bit characters.\<close>

definition is_ws :: "char \<Rightarrow> bool" where
  "is_ws c = (c \<in> set [CHR 0x09, CHR 0x0A, CHR 0x0B, CHR 0x0C, CHR 0x0D, CHR 0x20, CHR 0xA0])"

text \<open>Modelled from the spec: the Chunk of section 3 (chunker.py is missing): its id, its
  text, its token count and the offsets of its first token and of the token after its
  last one.\<close>

record chunk =
  chunk_id :: nat
  chunk_text :: string
  token_count :: nat
  start_offset :: nat
  end_offset :: nat

text \<open>Modelled from the spec: the tokenizer of chunker.py (missing), in the fallback of
  section 4.2, splitting at white space: a token is a maximal run of characters that
  are not white space. \<open>cur\<close> is the token being read, reversed.\<close>

fun split_words :: "string \<Rightarrow> string \<Rightarrow> string list" where
  "split_words cur [] = (if cur = [] then [] else [rev cur])"
| "split_words cur (c # cs) =
     (if is_ws c then (if cur = [] then split_words [] cs else rev cur # split_words [] cs)
      else split_words (c # cur) cs)"

text \<open>Modelled from the spec: \<open>tokenize\<close> of chunker.py (missing).\<close>

definition tokenize :: "string \<Rightarrow> string list" where
  "tokenize t = split_words [] t"

text \<open>Modelled from the spec: the text of a window of chunker.py (missing), its tokens
  separated by one space.\<close>

definition detokenize :: "string list \<Rightarrow> string" where
  "detokenize ws = join '' '' ws"

text \<open>Modelled from the spec: the chunk chunker.py (missing) makes of the window of \<open>width\<close>
  tokens that starts at token \<open>start\<close>.\<close>

definition window_chunk :: "string list \<Rightarrow> nat \<Rightarrow> nat \<Rightarrow> nat \<Rightarrow> chunk" where
  "window_chunk toks width start cid =
     (let w = take width (drop start toks)
      in \<lparr>chunk_id = cid, chunk_text = detokenize w, token_count = length w,
          start_offset = start, end_offset = start + length w\<rparr>)"

text \<open>Modelled from the spec: the walk of chunker.py (missing) over the token stream
  (section 4.2): windows of \<open>width\<close> tokens, the start advancing by \<open>step\<close>, the last window
  emitted even when it is shorter; the walk ends with the window that reaches the end of
  the stream. A step of 0, which \<open>chunk\<close> never passes, ends the walk too.\<close>

function windows :: "string list \<Rightarrow> nat \<Rightarrow> nat \<Rightarrow> nat \<Rightarrow> nat \<Rightarrow> chunk list" where
  "windows toks width step start cid =
     (if length toks \<le> start + width \<or> step = 0 then [window_chunk toks width start cid]
      else window_chunk toks width start cid # windows toks width step (start + step) (Suc cid))"
  by pat_completeness auto
termination
  by (relation "measure (\<lambda>(toks, width, step, start, cid). length toks - start)") auto

text \<open>Modelled from the spec: \<open>chunk(normalized_text, chunk_size_tokens, overlap_tokens)\<close> of
  chunker.py (missing), section 4.2: \<open>InvalidChunkConfigError\<close> unless
  \<open>0 \<le> overlap_tokens < chunk_size_tokens\<close>.\<close>

definition chunk :: "string \<Rightarrow> int \<Rightarrow> int \<Rightarrow> rag_error + chunk list" where
  "chunk normalized_text chunk_size_tokens overlap_tokens =
     (if 0 \<le> overlap_tokens \<and> overlap_tokens < chunk_size_tokens
      then Inr (windows (tokenize normalized_text) (nat chunk_size_tokens)
                  (nat (chunk_size_tokens - overlap_tokens)) 0 0)
      else Inl InvalidChunkConfigError)"

text \<open>A text is normalized when its white space is single spaces between words.\<close>

fun normalized :: "string \<Rightarrow> bool" where
  "normalized [] = True"
| "normalized [c] = (\<not> is_ws c)"
| "normalized (c # d # cs) =
     (\<not> is_ws c \<and> (if d = CHR '' '' then cs \<noteq> [] \<and> normalized cs else normalized (d # cs)))"

text \<open>Modelled from the spec: an Index Entry of section 3 (vector_store.py is missing).\<close>

record index_entry =
  entry_chunk :: chunk
  embedding :: "real list"
  document_id :: string

text \<open>Modelled from the spec: the similarity of vector_store.py (missing), section 4.3:
  cosine similarity, the dot product of the L2-normalized vectors.\<close>

definition dot :: "real list \<Rightarrow> real list \<Rightarrow> real" where
  "dot u v = sum_list (map2 (*) u v)"

text \<open>Modelled from the spec: L2 normalization in vector_store.py (missing).\<close>

definition l2_normalize :: "real list \<Rightarrow> real list" where
  "l2_normalize v = map (\<lambda>x. x / sqrt (dot v v)) v"

text \<open>Modelled from the spec: the cosine similarity of vector_store.py (missing).\<close>

definition cosine :: "real list \<Rightarrow> real list \<Rightarrow> real" where
  "cosine q e = dot (l2_normalize q) (l2_normalize e)"

text \<open>Modelled from the spec: the scoring pass of \<open>search\<close> in vector_store.py (missing):
  every stored entry with its similarity to the query.\<close>

definition scored :: "real list \<Rightarrow> index_entry list \<Rightarrow> (chunk \<times> real) list" where
  "scored q es = map (\<lambda>e. (entry_chunk e, cosine q (embedding e))) es"

text \<open>Modelled from the spec: the order of a Query Result (sections 3 and 4.3, vector_store.py
  missing): descending score, then ascending \<open>chunk_id\<close>.\<close>

definition rank_key :: "chunk \<times> real \<Rightarrow> real \<times> nat" where
  "rank_key r = (- snd r, chunk_id (fst r))"

text \<open>Modelled from the spec: \<open>search(document_id, query_embedding, k)\<close> of vector_store.py
  (missing), section 4.3, over the table of the indexes by document: \<open>IndexNotFoundError\<close>
  when the document has no index, the top \<open>k\<close> by score otherwise.\<close>

definition search ::
    "(string \<rightharpoonup> index_entry list) \<Rightarrow> string \<Rightarrow> real list \<Rightarrow> nat \<Rightarrow> rag_error + (chunk \<times> real) list" where
  "search table doc q k =
     (case table doc of
        None \<Rightarrow> Inl IndexNotFoundError
      | Some es \<Rightarrow> Inr (take k (sort_key rank_key (scored q es))))"

text \<open>What the claim says of the order of a result: of two results the earlier has the
  higher score, or the same score and a \<open>chunk_id\<close> that is not greater.\<close>

definition ranked_before :: "chunk \<times> real \<Rightarrow> chunk \<times> real \<Rightarrow> bool" where
  "ranked_before a b = (snd a > snd b \<or> (snd a = snd b \<and> chunk_id (fst a) \<le> chunk_id (fst b)))"

subsection \<open>A sample index\<close>

definition sample_chunk :: "nat \<Rightarrow> chunk" where
  "sample_chunk i = \<lparr>chunk_id = i, chunk_text = ''text'', token_count = 1,
                      start_offset = i, end_offset = Suc i\<rparr>"

definition sample_entry :: "nat \<Rightarrow> real list \<Rightarrow> index_entry" where
  "sample_entry i v = \<lparr>entry_chunk = sample_chunk i, embedding = v, document_id = ''d1''\<rparr>"

definition sample_table :: "string \<rightharpoonup> index_entry list" where
  "sample_table = [''d1'' \<mapsto> [sample_entry 7 [1, 0], sample_entry 4 [0, 1], sample_entry 3 [1, 0]]]"

section \<open>Properties of the AI controller\<close>

subsection \<open>Strings\<close>

lemma unat_of_char16: "unat (of_char a :: char16) = of_char a"
proof -
  have "(of_char a :: nat) mod 2 ^ 16 = of_char a"
    by (rule mod_less) (rule order_less_trans[OF nat_of_char_less_256], simp)
  moreover have "(of_char a :: char16) = of_nat (of_char a)" by (simp add: of_nat_of_char)
  ultimately show ?thesis by (simp add: unat_of_nat)
qed

lemma of_char_inj16: "(of_char a :: char16) = of_char b \<longleftrightarrow> a = b"
proof
  assume "(of_char a :: char16) = of_char b"
  then have "unat (of_char a :: char16) = unat (of_char b :: char16)" by simp
  then have "(of_char a :: nat) = of_char b" by (simp only: unat_of_char16)
  then show "a = b" by simp
qed simp

lemma str_inject [simp]: "str a = str b \<longleftrightarrow> a = b"
proof -
  have "inj (of_char :: char \<Rightarrow> char16)" by (rule injI) (simp add: of_char_inj16)
  then show ?thesis unfolding str_def by (rule inj_map_eq_map)
qed

lemma str_Nil [simp]: "str s = [] \<longleftrightarrow> s = []"
  by (simp add: str_def)



subsection \<open>Calls and responses\<close>

lemma new_calls_same: "new_calls w w = []"
  by (simp add: new_calls_def)


lemma post_outcome: "post w c = (r, w') \<Longrightarrow> r = service w (length (calls w)) c"
  by (auto simp: post_def Let_def)

lemma ai_catch_status:
  "status (ai_catch u f e) = (if err_code e = Some (str ''ECONNREFUSED'') then 503 else 500)"
  by (simp add: ai_catch_def res_status_json_def)

lemma ai_catch_failure: "is_failure (ai_catch u f e)"
  by (simp add: ai_catch_def res_status_json_def failure_def is_failure_def)

lemma bad_request_failure: "is_failure (res_status_json n (failure m))"
  by (simp add: res_status_json_def failure_def is_failure_def)

lemma field_js_object3:
  "field k3 (js_object [(k1, a), (k2, b), (k3, Some v)]) = Some v" if "k1 \<noteq> k3" "k2 \<noteq> k3"
  using that by (cases a; cases b) (simp_all add: js_object_def List.map_filter_simps)


text \<open>The tail every handler shares: one call, whose outcome decides the response.\<close>

lemma forward_cases:
  assumes "(case post w c of (Resolved d, w1) \<Rightarrow> (res_json d, w1)
            | (Rejected e, w1) \<Rightarrow> (ai_catch u f e, w1)) = (r, w')"
  shows "new_calls w w' = [(c, service w (length (calls w)) c)]
       \<and> ((\<exists>d. service w (length (calls w)) c = Resolved d \<and> r = res_json d)
          \<or> (\<exists>e. service w (length (calls w)) c = Rejected e \<and> r = ai_catch u f e))"
proof -
  let ?out = "service w (length (calls w)) c"
  let ?w1 = "w\<lparr>calls := calls w @ [(c, ?out)]\<rparr>"
  have p: "post w c = (?out, ?w1)" by (simp add: post_def Let_def)
  have n: "new_calls w ?w1 = [(c, ?out)]" by (simp add: new_calls_def)
  show ?thesis
  proof (cases ?out)
    case (Resolved d)
    with assms p n show ?thesis by auto
  next
    case (Rejected e)
    with assms p n show ?thesis by auto
  qed
qed

subsection \<open>indexFile\<close>



lemmas sample_defs = world_down_def world_up_def down_then_up_def sample_body_def econnrefused_def
  indexed3_def post_def present_def js_object_def List.map_filter_simps ai_catch_def
  res_json_def res_status_json_def failure_def Let_def

lemma sample_index_request: "index_request sample_body = index_call"
  by (simp add: index_request_def index_call_def sample_body_def js_object_def List.map_filter_simps)




subsection \<open>askQuestion and summarizeFile\<close>

lemma askQuestion_forwarded:
  assumes "present (filePath b)" "question b = Some (JStr q)" "trim q \<noteq> []"
    and "askQuestion w b = (r, w')"
  shows "new_calls w w' = [(ask_request b q, service w (length (calls w)) (ask_request b q))]
       \<and> ((\<exists>d. service w (length (calls w)) (ask_request b q) = Resolved d \<and> r = res_json d)
          \<or> (\<exists>e. service w (length (calls w)) (ask_request b q) = Rejected e
                 \<and> r = ai_catch ''AI service is not available. Please ensure the RAG service is running.''
                                ''Failed to get answer'' e))"
proof -
  from assms(3) have "q \<noteq> []" by (auto simp: trim_def)
  with assms have "(case post w (ask_request b q) of
           (Resolved d, w') \<Rightarrow> (res_json d, w')
         | (Rejected e, w') \<Rightarrow>
             (ai_catch ''AI service is not available. Please ensure the RAG service is running.''
                       ''Failed to get answer'' e, w')) = (r, w')"
    by (simp add: askQuestion_def)
  from forward_cases[OF this] show ?thesis .
qed


text \<open>A question that is truthy and not a string: \<open>question.trim()\<close> throws, the \<open>catch\<close> block
  answers 500 and nothing is sent.\<close>

lemma askQuestion_type_error:
  assumes "present (filePath b)" "question b = Some j" "truthy j" "\<forall>q. j \<noteq> JStr q"
    and "askQuestion w b = (r, w')"
  shows "status r = 500 \<and> is_failure r \<and> w' = w
       \<and> field (str ''error'') (body r) = Some (JStr (str ''question.trim is not a function''))"
proof -
  from assms have "r = ai_catch ''AI service is not available. Please ensure the RAG service is running.''
                              ''Failed to get answer'' trim_type_error" and "w' = w"
    by (cases j; simp add: askQuestion_def)+
  then show ?thesis
    by (simp add: ai_catch_status ai_catch_failure trim_type_error_def)
       (simp add: ai_catch_def trim_type_error_def res_status_json_def failure_def js_or_def)
qed

lemma summarizeFile_forwarded:
  assumes "present (filePath b)" and "summarizeFile w b = (r, w')"
  shows "new_calls w w' = [(summarize_request b, service w (length (calls w)) (summarize_request b))]
       \<and> ((\<exists>d. service w (length (calls w)) (summarize_request b) = Resolved d \<and> r = res_json d)
          \<or> (\<exists>e. service w (length (calls w)) (summarize_request b) = Rejected e
                 \<and> r = ai_catch ''AI service is not available. Please ensure the RAG service is running.''
                                ''Failed to summarize file'' e))"
proof -
  from assms have "(case post w (summarize_request b) of
           (Resolved d, w') \<Rightarrow> (res_json d, w')
         | (Rejected e, w') \<Rightarrow>
             (ai_catch ''AI service is not available. Please ensure the RAG service is running.''
                       ''Failed to summarize file'' e, w')) = (r, w')"
    by (simp add: summarizeFile_def)
  from forward_cases[OF this] show ?thesis .
qed

text \<open>
  Claim C5. On the read path, for a request that passes validation (\<open>askQuestion\<close>: a file
  path and a question that is a string with more than white space; \<open>summarizeFile\<close>: a
  file path): when the RAG provider refuses the connection of the call the handler
  makes, the response has status 503 and \<open>success: false\<close>, and the refused call is the
  only call the handler made: there is no retry, whatever a second attempt would have
  been answered.
\<close>

theorem read_path_provider_refused:
  assumes "present (filePath b)" and "err_code e = Some (str ''ECONNREFUSED'')"
  shows "(\<forall>q. question b = Some (JStr q) \<and> trim q \<noteq> []
              \<and> service w (length (calls w)) (ask_request b q) = Rejected e \<longrightarrow>
            status (fst (askQuestion w b)) = 503 \<and> is_failure (fst (askQuestion w b))
            \<and> new_calls w (snd (askQuestion w b)) = [(ask_request b q, Rejected e)])
       \<and> (service w (length (calls w)) (summarize_request b) = Rejected e \<longrightarrow>
            status (fst (summarizeFile w b)) = 503 \<and> is_failure (fst (summarizeFile w b))
            \<and> new_calls w (snd (summarizeFile w b)) = [(summarize_request b, Rejected e)])"
proof (intro conjI allI impI)
  fix q
  assume h: "question b = Some (JStr q) \<and> trim q \<noteq> []
              \<and> service w (length (calls w)) (ask_request b q) = Rejected e"
  obtain r w' where a: "askQuestion w b = (r, w')" by (cases "askQuestion w b")
  from askQuestion_forwarded[OF assms(1) _ _ a, of q] h assms(2)
  have "status r = 503 \<and> is_failure r \<and> new_calls w w' = [(ask_request b q, Rejected e)]"
    by (auto simp: ai_catch_status ai_catch_failure)
  with a show "status (fst (askQuestion w b)) = 503" "is_failure (fst (askQuestion w b))"
    "new_calls w (snd (askQuestion w b)) = [(ask_request b q, Rejected e)]" by simp_all
next
  assume h: "service w (length (calls w)) (summarize_request b) = Rejected e"
  obtain r w' where a: "summarizeFile w b = (r, w')" by (cases "summarizeFile w b")
  from summarizeFile_forwarded[OF assms(1) a] h assms(2)
  have "status r = 503 \<and> is_failure r \<and> new_calls w w' = [(summarize_request b, Rejected e)]"
    by (auto simp: ai_catch_status ai_catch_failure)
  with a show "status (fst (summarizeFile w b)) = 503" "is_failure (fst (summarizeFile w b))"
    "new_calls w (snd (summarizeFile w b)) = [(summarize_request b, Rejected e)]" by simp_all
qed

lemma trim_sample: "trim (str ''  What is it?  '') = str ''What is it?''"
  by (simp add: trim_def str_def white_space_def)

lemma sample_ask_request: "ask_request sample_body (str ''  What is it?  '') = ask_call"
  by (simp add: ask_request_def ask_call_def sample_body_def js_object_def List.map_filter_simps
      trim_sample)

lemma sample_summarize_request: "summarize_request sample_body = summarize_call"
  by (simp add: summarize_request_def summarize_call_def sample_body_def js_object_def
      List.map_filter_simps)

text \<open>
  C5 at a provider that refuses the first connection and would answer the second: both
  handlers answer 503 after a single call.
\<close>

theorem read_path_provider_refused_witness:
  "present (filePath sample_body)
   \<and> err_code econnrefused = Some (str ''ECONNREFUSED'')
   \<and> question sample_body = Some (JStr (str ''  What is it?  ''))
   \<and> trim (str ''  What is it?  '') = str ''What is it?''
   \<and> service world_down (length (calls world_down)) ask_call = Rejected econnrefused
   \<and> service world_down (length (calls world_down)) summarize_call = Rejected econnrefused
   \<and> service world_down 1 ask_call = Resolved indexed3
   \<and> status (fst (askQuestion world_down sample_body)) = 503
   \<and> is_failure (fst (askQuestion world_down sample_body))
   \<and> new_calls world_down (snd (askQuestion world_down sample_body)) = [(ask_call, Rejected econnrefused)]
   \<and> status (fst (summarizeFile world_down sample_body)) = 503
   \<and> is_failure (fst (summarizeFile world_down sample_body))
   \<and> new_calls world_down (snd (summarizeFile world_down sample_body))
        = [(summarize_call, Rejected econnrefused)]"
proof -
  have p: "present (filePath sample_body)" by (simp add: sample_body_def present_def)
  have c: "err_code econnrefused = Some (str ''ECONNREFUSED'')" by (simp add: econnrefused_def)
  have q: "question sample_body = Some (JStr (str ''  What is it?  ''))" by (simp add: sample_body_def)
  have t: "trim (str ''  What is it?  '') \<noteq> []" by (simp add: trim_sample)
  have s: "service world_down (length (calls world_down)) c' = Rejected econnrefused" for c'
    by (simp add: world_down_def down_then_up_def)
  have u: "service world_down 1 ask_call = Resolved indexed3"
    by (simp add: world_down_def down_then_up_def)
  from read_path_provider_refused[OF p c, of world_down] p c q t s u
  show ?thesis by (simp add: sample_ask_request sample_summarize_request trim_sample)
qed







subsection \<open>generateDocument and indexFileAsync\<close>

lemma generateDocument_cases:
  assumes "generateDocument w b = (r, w')"
  shows "(\<not> present (filePath b) \<and> r = file_path_required \<and> w' = w)
       \<or> (present (filePath b) \<and> \<not> includes_type (requested_kind b)
            \<and> r = res_status_json 400
              (failure (JStr (str ''Invalid document type. Must be one of: ''
                              @ join (str '', '') validTypes))) \<and> w' = w)
       \<or> (present (filePath b) \<and> includes_type (requested_kind b) \<and>
            (\<exists>out. new_calls w w' =
                 [(\<lparr>endpoint = ''/generate-doc'',
                       payload = js_object [(str ''file_path'', map_option JStr (filePath b)),
                                            (str ''file_id'', map_option JStr (fileId b)),
                                            (str ''doc_type'', Some (requested_kind b))]\<rparr>, out)]))"
proof (cases "\<not> present (filePath b) \<or> \<not> includes_type (requested_kind b)")
  case True
  with assms show ?thesis by (auto simp: generateDocument_def Let_def split: if_splits)
next
  case False
  with assms have "(case post w \<lparr>endpoint = ''/generate-doc'',
                       payload = js_object [(str ''file_path'', map_option JStr (filePath b)),
                                            (str ''file_id'', map_option JStr (fileId b)),
                                            (str ''doc_type'', Some (requested_kind b))]\<rparr> of
           (Resolved d, w') \<Rightarrow> (res_json d, w')
         | (Rejected e, w') \<Rightarrow>
             (ai_catch ''AI service is not available'' ''Failed to generate document'' e, w')) = (r, w')"
    by (simp add: generateDocument_def Let_def)
  from forward_cases[OF this] False show ?thesis by auto
qed

lemma includes_type_iff:
  "includes_type j \<longleftrightarrow> j \<in> {JStr (str ''summary''), JStr (str ''report''), JStr (str ''outline''), JStr (str ''key_points'')}"
  by (cases j) (auto simp: validTypes_def)

text \<open>
  Claim C6. \<open>generateDocument\<close> accepts the requested kind exactly when it is one of
  \<open>summary\<close>, \<open>report\<close>, \<open>outline\<close>, \<open>key_points\<close>. Any other \<open>docType\<close> is answered
  with a 400 failure and nothing is sent to the RAG service; for a request with a file
  path, a request is forwarded to \<open>/generate-doc\<close> with that kind if and only if the kind
  is one of the four.
\<close>

theorem generateDocument_accepts_four_kinds:
  assumes "generateDocument w b = (r, w')"
  shows "(requested_kind b \<notin> {JStr (str ''summary''), JStr (str ''report''), JStr (str ''outline''), JStr (str ''key_points'')}
            \<longrightarrow> status r = 400 \<and> is_failure r \<and> w' = w)
       \<and> (present (filePath b) \<longrightarrow>
            ((\<exists>c out. new_calls w w' = [(c, out)] \<and> endpoint c = ''/generate-doc''
                       \<and> field (str ''doc_type'') (payload c) = Some (requested_kind b))
             \<longleftrightarrow> requested_kind b \<in> {JStr (str ''summary''), JStr (str ''report''), JStr (str ''outline''), JStr (str ''key_points'')}))"
proof -
  from generateDocument_cases[OF assms] consider
      (nopath) "\<not> present (filePath b)" "r = file_path_required" "w' = w"
    | (badkind) "present (filePath b)" "\<not> includes_type (requested_kind b)"
        "r = res_status_json 400
              (failure (JStr (str ''Invalid document type. Must be one of: ''
                              @ join (str '', '') validTypes)))" "w' = w"
    | (forwarded) out where "present (filePath b)" "includes_type (requested_kind b)"
        "new_calls w w' =
                 [(\<lparr>endpoint = ''/generate-doc'',
                       payload = js_object [(str ''file_path'', map_option JStr (filePath b)),
                                            (str ''file_id'', map_option JStr (fileId b)),
                                            (str ''doc_type'', Some (requested_kind b))]\<rparr>, out)]"
    by blast
  then show ?thesis
  proof cases
    case nopath
    have "status r = 400 \<and> is_failure r \<and> w' = w"
      using nopath by (simp add: file_path_required_def bad_request_failure) (simp add: res_status_json_def)
    with nopath show ?thesis by simp
  next
    case badkind
    have "status r = 400 \<and> is_failure r \<and> w' = w"
      using badkind by (simp add: bad_request_failure) (simp add: res_status_json_def)
    moreover have "new_calls w w' = []" using badkind by (simp add: new_calls_same)
    ultimately show ?thesis using badkind(2) by (simp add: includes_type_iff)
  next
    case forwarded
    have "field (str ''doc_type'') (js_object [(str ''file_path'', map_option JStr (filePath b)),
                                            (str ''file_id'', map_option JStr (fileId b)),
                                            (str ''doc_type'', Some (requested_kind b))]) = Some (requested_kind b)"
      by (simp add: field_js_object3)
    with forwarded(3) have "\<exists>c out. new_calls w w' = [(c, out)] \<and> endpoint c = ''/generate-doc''
                       \<and> field (str ''doc_type'') (payload c) = Some (requested_kind b)" by simp
    with forwarded(2) show ?thesis by (simp add: includes_type_iff)
  qed
qed



lemma generate_up: "generateDocument world_up sample_body =
   (\<lparr>status = 200, body = indexed3\<rparr>, world_up\<lparr>calls := [(generate_call, Resolved indexed3)]\<rparr>)"
  by (simp add: generateDocument_def requested_kind_def validTypes_def generate_call_def sample_defs)

lemma generate_bad: "generateDocument world_up (sample_body\<lparr>docType := Some (JStr (str ''poem''))\<rparr>) =
   (\<lparr>status = 400, body = JObj [(str ''success'', JBool False),
       (str ''error'', JStr (str ''Invalid document type. Must be one of: summary, report, outline, key_points''))]\<rparr>, world_up)"
  by (simp add: generateDocument_def requested_kind_def validTypes_def sample_defs)
     (simp add: str_def)

text \<open>C6 at \<open>docType = "outline"\<close> (forwarded) and at \<open>docType = "poem"\<close> (400).\<close>

theorem generateDocument_accepts_four_kinds_witness:
  "generateDocument world_up sample_body =
     (\<lparr>status = 200, body = indexed3\<rparr>, world_up\<lparr>calls := [(generate_call, Resolved indexed3)]\<rparr>)
   \<and> requested_kind sample_body = JStr (str ''outline'')
   \<and> present (filePath sample_body)
   \<and> field (str ''doc_type'') (payload generate_call) = Some (JStr (str ''outline''))
   \<and> generateDocument world_up (sample_body\<lparr>docType := Some (JStr (str ''poem''))\<rparr>) =
     (\<lparr>status = 400, body = JObj [(str ''success'', JBool False),
       (str ''error'', JStr (str ''Invalid document type. Must be one of: summary, report, outline, key_points''))]\<rparr>, world_up)
   \<and> new_calls world_up world_up = []"
  using generateDocument_accepts_four_kinds[OF generate_up] generateDocument_accepts_four_kinds[OF generate_bad]
    generate_up generate_bad
  by (simp add: requested_kind_def sample_body_def present_def generate_call_def new_calls_def)




section \<open>Properties of the drive\<close>

subsection \<open>The star\<close>

lemma files_unlink [simp]: "files (unlink_if_exists n s) = files s"
  by (simp add: unlink_if_exists_def)

lemma files_unlink_all [simp]:
  "files (foldl (\<lambda>t x. unlink_if_exists (nm x) t) s xs) = files s"
  by (induction xs arbitrary: s) simp_all

lemma versions_unlink_all [simp]:
  "versions (foldl (\<lambda>t x. unlink_if_exists (nm x) t) s xs) = versions s"
  by (induction xs arbitrary: s) (simp_all add: unlink_if_exists_def)

lemma findById_mem: "findById s i = Some f \<Longrightarrow> f \<in> set (files s) \<and> file_oid f = i"
  by (auto simp: findById_def find_Some_iff)

lemma star_origin_old: "g \<in> set (files s) \<Longrightarrow> star_origin s g"
  by (auto simp: star_origin_def)

lemma star_origin_deleteMany: "g \<in> set (files (deleteMany P s)) \<Longrightarrow> star_origin s g"
  by (auto simp: deleteMany_def star_origin_def)

lemma save_mem: "g \<in> set (files (save f' s)) \<Longrightarrow> g = f' \<or> g \<in> set (files s)"
  by (auto simp: save_def split: if_splits)

lemma star_origin_same:
  "f \<in> set (files s) \<Longrightarrow> file_oid g = file_oid f \<Longrightarrow> isStarred g = isStarred f \<Longrightarrow>
   starredAt g = starredAt f \<Longrightarrow> star_origin s g"
  by (auto simp: star_origin_def)

lemma moveToTrash_star: "g \<in> set (files (snd (moveToTrash now s i))) \<Longrightarrow> star_origin s g"
  by (auto simp: moveToTrash_def Let_def star_origin_old split: id_param.splits option.splits
      dest!: findById_mem save_mem intro: star_origin_same)


lemma restoreFromTrash_star: "g \<in> set (files (snd (restoreFromTrash s i))) \<Longrightarrow> star_origin s g"
  by (auto simp: restoreFromTrash_def Let_def star_origin_old split: id_param.splits option.splits
      dest!: findById_mem save_mem intro: star_origin_same)

lemma permanentDelete_star: "g \<in> set (files (snd (permanentDelete s i))) \<Longrightarrow> star_origin s g"
  by (auto simp: permanentDelete_def star_origin_old deleteMany_def split: id_param.splits option.splits)

lemma emptyTrash_star: "g \<in> set (files (snd (emptyTrash s))) \<Longrightarrow> star_origin s g"
  by (auto simp: emptyTrash_def Let_def star_origin_old deleteMany_def)

lemma autoCleanupTrash_star: "g \<in> set (files (snd (autoCleanupTrash now s))) \<Longrightarrow> star_origin s g"
  by (auto simp: autoCleanupTrash_def Let_def star_origin_old deleteMany_def)

lemma updateTags_star: "g \<in> set (files (snd (updateTags s i ts))) \<Longrightarrow> star_origin s g"
  by (auto simp: updateTags_def Let_def star_origin_old split: id_param.splits option.splits
      dest!: findById_mem save_mem intro: star_origin_same)

lemma star_origin_new: "star_origin s (new_file now (next_oid s) u fld)"
  by (simp add: star_origin_def new_file_def)

lemma uploadFile_star: "g \<in> set (files (snd (uploadFile now s u fld))) \<Longrightarrow> star_origin s g"
  by (auto simp: uploadFile_def Let_def star_origin_old star_origin_new split: option.splits if_splits)

lemma moveFile_star: "g \<in> set (files (snd (moveFile s i t))) \<Longrightarrow> star_origin s g"
  by (auto simp: moveFile_def Let_def star_origin_old split: id_param.splits option.splits if_splits
      dest!: findById_mem save_mem intro: star_origin_same)

lemma renameFile_star: "g \<in> set (files (snd (renameFile s i n))) \<Longrightarrow> star_origin s g"
  by (auto simp: renameFile_def Let_def star_origin_old split: id_param.splits option.splits if_splits
      dest!: findById_mem save_mem intro: star_origin_same)

lemma deleteFile_star: "g \<in> set (files (snd (deleteFile s i))) \<Longrightarrow> star_origin s g"
  by (auto simp: deleteFile_def Let_def star_origin_old deleteMany_def split: id_param.splits option.splits)

lemma enableSharing_star:
  assumes "g \<in> set (files (snd (enableSharing now s i l)))"
  shows "star_origin s g"
proof (cases i)
  case (Id j)
  show ?thesis
  proof (cases "findById s j")
    case None
    with assms Id show ?thesis by (simp add: enableSharing_def star_origin_old)
  next
    case (Some f)
    from findById_mem[OF Some] have m: "f \<in> set (files s)" by simp
    show ?thesis
    proof (cases "isShared (sharing f) \<and> present (shareLink (sharing f))")
      case True
      then obtain e where "shareLink (sharing f) = Some e"
        by (cases "shareLink (sharing f)") (auto simp: present_def)
      with assms Id Some True show ?thesis by (simp add: enableSharing_def star_origin_old)
    next
      case False
      with assms Id Some
      have "g \<in> set (files (save (f\<lparr>sharing := \<lparr>isShared = True, shareLink = Some l,
                                              sharedAt = Some now\<rparr>\<rparr>) s))"
        by (simp add: enableSharing_def Let_def)
      from save_mem[OF this] m show ?thesis
        by (auto intro: star_origin_old star_origin_same)
    qed
  qed
qed (use assms in \<open>simp_all add: enableSharing_def star_origin_old\<close>)

lemma disableSharing_star: "g \<in> set (files (snd (disableSharing s i))) \<Longrightarrow> star_origin s g"
  by (auto simp: disableSharing_def Let_def star_origin_old split: id_param.splits option.splits
      dest!: findById_mem save_mem intro: star_origin_same)

lemma uploadNewVersion_star: "g \<in> set (files (snd (uploadNewVersion s i u))) \<Longrightarrow> star_origin s g"
  by (auto simp: uploadNewVersion_def Let_def star_origin_old split: id_param.splits option.splits if_splits
      dest!: findById_mem save_mem intro: star_origin_same)

lemma restoreVersion_star: "g \<in> set (files (snd (restoreVersion s i n nm))) \<Longrightarrow> star_origin s g"
  by (auto simp: restoreVersion_def Let_def star_origin_old split: id_param.splits option.splits if_splits
      dest!: findById_mem save_mem intro: star_origin_same)

lemma deleteFolder_star: "g \<in> set (files (snd (deleteFolder rx s i))) \<Longrightarrow> star_origin s g"
  by (auto simp: deleteFolder_def Let_def star_origin_old deleteMany_def split: id_param.splits option.splits)

lemma handle_star_origin:
  assumes "\<forall>i. q \<noteq> ToggleStar i" "g \<in> set (files (handle now rx s q))"
  shows "star_origin s g"
  using assms
  by (cases q)
     (simp_all add: moveToTrash_star restoreFromTrash_star permanentDelete_star emptyTrash_star
        autoCleanupTrash_star updateTags_star uploadFile_star moveFile_star renameFile_star
        deleteFile_star enableSharing_star disableSharing_star uploadNewVersion_star
        restoreVersion_star deleteFolder_star)

lemma next_oid_unlink [simp]: "next_oid (unlink_if_exists n s) = next_oid s"
  by (simp add: unlink_if_exists_def)

lemma next_oid_unlink_all [simp]:
  "next_oid (foldl (\<lambda>t x. unlink_if_exists (nm x) t) s xs) = next_oid s"
  by (induction xs arbitrary: s) simp_all

lemma well_formed_ids:
  "well_formed s \<longleftrightarrow>
     distinct (map file_oid (files s)) \<and> (\<forall>i \<in> set (map file_oid (files s)). i < next_oid s)"
  by (simp add: well_formed_def)

lemma well_formed_folders [simp]: "well_formed (s\<lparr>folders := x\<rparr>) = well_formed s"
  by (simp add: well_formed_def)

lemma well_formed_versions [simp]: "well_formed (s\<lparr>versions := x\<rparr>) = well_formed s"
  by (simp add: well_formed_def)

lemma well_formed_disk [simp]: "well_formed (s\<lparr>disk := x\<rparr>) = well_formed s"
  by (simp add: well_formed_def)

lemma well_formed_unlink [simp]: "well_formed (unlink_if_exists n s) = well_formed s"
  by (simp add: unlink_if_exists_def)

lemma well_formed_unlink_all [simp]:
  "well_formed (foldl (\<lambda>t x. unlink_if_exists (nm x) t) s xs) = well_formed s"
  by (induction xs arbitrary: s) simp_all

lemma ids_save: "map file_oid (files (save f s)) = map file_oid (files s)"
  by (simp add: save_def)

lemma well_formed_save [simp]: "well_formed (save f s) = well_formed s"
proof -
  have "next_oid (save f s) = next_oid s" by (simp add: save_def)
  then show ?thesis unfolding well_formed_ids ids_save by simp
qed

lemma well_formed_deleteMany: "well_formed s \<Longrightarrow> well_formed (deleteMany P s)"
  by (auto simp: well_formed_def deleteMany_def distinct_map_filter)

lemma well_formed_upload:
  "well_formed s \<Longrightarrow> file_oid f = next_oid s \<Longrightarrow>
   well_formed (s\<lparr>files := files s @ [f], next_oid := Suc (next_oid s)\<rparr>)"
  by (auto simp: well_formed_def less_Suc_eq)

lemma toggleStar_wf: "well_formed s \<Longrightarrow> well_formed (snd (toggleStar now s i))"
  by (auto simp: toggleStar_def Let_def split: id_param.splits option.splits)

lemma moveToTrash_wf: "well_formed s \<Longrightarrow> well_formed (snd (moveToTrash now s i))"
  by (auto simp: moveToTrash_def Let_def split: id_param.splits option.splits)

lemma restoreFromTrash_wf: "well_formed s \<Longrightarrow> well_formed (snd (restoreFromTrash s i))"
  by (auto simp: restoreFromTrash_def Let_def split: id_param.splits option.splits)

lemma permanentDelete_wf: "well_formed s \<Longrightarrow> well_formed (snd (permanentDelete s i))"
  by (auto simp: permanentDelete_def split: id_param.splits option.splits
      intro!: well_formed_deleteMany)

lemma emptyTrash_wf: "well_formed s \<Longrightarrow> well_formed (snd (emptyTrash s))"
  by (auto simp: emptyTrash_def Let_def intro!: well_formed_deleteMany)

lemma autoCleanupTrash_wf: "well_formed s \<Longrightarrow> well_formed (snd (autoCleanupTrash now s))"
  by (auto simp: autoCleanupTrash_def Let_def intro!: well_formed_deleteMany)

lemma updateTags_wf: "well_formed s \<Longrightarrow> well_formed (snd (updateTags s i ts))"
  by (auto simp: updateTags_def Let_def split: id_param.splits option.splits)

lemma uploadFile_wf: "well_formed s \<Longrightarrow> well_formed (snd (uploadFile now s u fld))"
  by (auto simp: uploadFile_def Let_def new_file_def split: option.splits if_splits
      intro!: well_formed_upload)

lemma moveFile_wf: "well_formed s \<Longrightarrow> well_formed (snd (moveFile s i t))"
  by (auto simp: moveFile_def Let_def split: id_param.splits option.splits if_splits)

lemma renameFile_wf: "well_formed s \<Longrightarrow> well_formed (snd (renameFile s i n))"
  by (auto simp: renameFile_def Let_def split: id_param.splits option.splits if_splits)

lemma deleteFile_wf: "well_formed s \<Longrightarrow> well_formed (snd (deleteFile s i))"
  by (auto simp: deleteFile_def Let_def split: id_param.splits option.splits
      intro!: well_formed_deleteMany)

lemma enableSharing_wf:
  assumes "well_formed s"
  shows "well_formed (snd (enableSharing now s i l))"
proof (cases i)
  case (Id j)
  show ?thesis
  proof (cases "findById s j")
    case None
    with assms Id show ?thesis by (simp add: enableSharing_def)
  next
    case (Some f)
    show ?thesis
    proof (cases "isShared (sharing f) \<and> present (shareLink (sharing f))")
      case True
      then obtain e where "shareLink (sharing f) = Some e"
        by (cases "shareLink (sharing f)") (auto simp: present_def)
      with assms Id Some True show ?thesis by (simp add: enableSharing_def)
    next
      case False
      then have "(if isShared (sharing f) \<and> present (shareLink (sharing f))
                  then shareLink (sharing f) else None) = None" by auto
      then have "enableSharing now s (Id j) l =
          (done_with ''Share link generated successfully'' l,
           save (f\<lparr>sharing := \<lparr>isShared = True, shareLink = Some l, sharedAt = Some now\<rparr>\<rparr>) s)"
        using Some unfolding enableSharing_def by (simp only: id_param.case option.case Let_def)
      with assms Id show ?thesis by simp
    qed
  qed
qed (use assms in \<open>simp_all add: enableSharing_def\<close>)

lemma disableSharing_wf: "well_formed s \<Longrightarrow> well_formed (snd (disableSharing s i))"
  by (auto simp: disableSharing_def Let_def split: id_param.splits option.splits)

lemma uploadNewVersion_wf: "well_formed s \<Longrightarrow> well_formed (snd (uploadNewVersion s i u))"
  by (auto simp: uploadNewVersion_def Let_def split: id_param.splits option.splits if_splits)

lemma restoreVersion_wf: "well_formed s \<Longrightarrow> well_formed (snd (restoreVersion s i n nm))"
  by (auto simp: restoreVersion_def Let_def split: id_param.splits option.splits if_splits)

lemma deleteFolder_wf: "well_formed s \<Longrightarrow> well_formed (snd (deleteFolder rx s i))"
  by (auto simp: deleteFolder_def Let_def split: id_param.splits option.splits
      intro!: well_formed_deleteMany)

lemma handle_wf: "well_formed s \<Longrightarrow> well_formed (handle now rx s q)"
  by (cases q)
     (simp_all add: toggleStar_wf moveToTrash_wf restoreFromTrash_wf permanentDelete_wf emptyTrash_wf
        autoCleanupTrash_wf updateTags_wf uploadFile_wf moveFile_wf renameFile_wf deleteFile_wf
        enableSharing_wf disableSharing_wf uploadNewVersion_wf restoreVersion_wf deleteFolder_wf)

lemma findById_unique:
  assumes "distinct (map file_oid (files s))" "f \<in> set (files s)"
  shows "findById s (file_oid f) = Some f"
proof -
  have "distinct (map file_oid xs) \<Longrightarrow> f \<in> set xs \<Longrightarrow>
        find (\<lambda>g. file_oid g = file_oid f) xs = Some f" for xs
    by (induction xs) (auto simp: image_iff)
  with assms show ?thesis by (simp add: findById_def)
qed

lemma findById_fresh:
  assumes "\<forall>f \<in> set (files s). file_oid f < next_oid s"
  shows "findById s (next_oid s) = None"
  using assms by (auto simp: findById_def find_None_iff)

lemma star_origin_kept:
  assumes "well_formed s" "star_origin s g"
  shows "star_kept s g"
proof -
  from assms(2) consider
      f where "f \<in> set (files s)" "file_oid f = file_oid g" "isStarred f = isStarred g"
        "starredAt f = starredAt g"
    | "file_oid g = next_oid s" "isStarred g = False" "starredAt g = None"
    unfolding star_origin_def by auto
  then show ?thesis
  proof cases
    case 1
    from assms(1) 1(1) have "findById s (file_oid f) = Some f"
      by (simp add: well_formed_def findById_unique)
    with 1 show ?thesis by (simp add: star_kept_def)
  next
    case 2
    from assms(1) have "findById s (next_oid s) = None"
      by (simp add: well_formed_def findById_fresh)
    with 2 show ?thesis by (simp add: star_kept_def)
  qed
qed

lemma star_origin_inv:
  assumes "drive_inv s" "star_origin s g"
  shows "star_inv g"
proof -
  from assms(2) consider
      f where "f \<in> set (files s)" "isStarred f = isStarred g" "starredAt f = starredAt g"
    | "isStarred g = False" "starredAt g = None"
    unfolding star_origin_def by auto
  then show ?thesis
  proof cases
    case 1
    with assms(1) have "star_inv f" by (simp add: drive_inv_def)
    with 1 show ?thesis by (simp add: star_inv_def)
  next
    case 2
    then show ?thesis by (simp add: star_inv_def)
  qed
qed

lemma toggleStar_files:
  "files (snd (toggleStar now s rid)) =
     (case rid of
        Id i \<Rightarrow> (case findById s i of
                   None \<Rightarrow> files s
                 | Some f \<Rightarrow> map (\<lambda>g. if file_oid g = i
                              then f\<lparr>isStarred := \<not> isStarred f,
                                     starredAt := (if \<not> isStarred f then Some now else None)\<rparr>
                              else g) (files s))
      | _ \<Rightarrow> files s)"
  by (auto simp: toggleStar_def Let_def save_def split: id_param.splits option.splits dest: findById_mem)

lemma toggleStar_inv: "drive_inv s \<Longrightarrow> drive_inv (snd (toggleStar now s rid))"
  unfolding drive_inv_def toggleStar_files
  by (auto simp: star_inv_def split: id_param.splits option.splits)

lemma findById_save:
  assumes "findById s i = Some f" "file_oid f' = i"
  shows "findById (save f' s) i = Some f'"
proof -
  have "find (\<lambda>g. file_oid g = i) xs = Some f \<Longrightarrow>
        find (\<lambda>g. file_oid g = i) (map (\<lambda>g. if file_oid g = file_oid f' then f' else g) xs) = Some f'" for xs
    using assms(2) by (induction xs) (auto split: if_splits)
  with assms(1) show ?thesis by (simp add: findById_def save_def)
qed

text \<open>
  Claim C9. The star invariant (\<open>starredAt\<close> is a date exactly when \<open>isStarred\<close> is true, for
  every file of the collection) is preserved by \<open>toggleStar\<close> and by every other request
  that writes files. \<open>toggleStar\<close> on a file that exists flips \<open>isStarred\<close> and sets
  \<open>starredAt\<close> to the current date when the file becomes starred, to \<open>null\<close> when it
  becomes unstarred. No other request sets the star: in a collection with unique ids
  below \<open>next_oid\<close>, which every request keeps so, every file after the request has the
  star (\<open>isStarred\<close> and \<open>starredAt\<close>) that the file of its id had before the request,
  and a file whose id was not in the collection before has the defaults \<open>false\<close> and
  \<open>null\<close>.
\<close>

theorem star_invariant:
  "(drive_inv s \<longrightarrow> drive_inv (handle now rx s q))
   \<and> (\<forall>i f. findById s i = Some f \<longrightarrow>
         findById (snd (toggleStar now s (Id i))) i
           = Some (f\<lparr>isStarred := \<not> isStarred f,
                     starredAt := (if isStarred f then None else Some now)\<rparr>))
   \<and> (well_formed s \<longrightarrow> well_formed (handle now rx s q))
   \<and> (well_formed s \<and> (\<forall>i. q \<noteq> ToggleStar i) \<longrightarrow>
        (\<forall>g \<in> set (files (handle now rx s q)). star_kept s g))"
proof (intro conjI impI allI)
  assume inv: "drive_inv s"
  show "drive_inv (handle now rx s q)"
  proof (cases "\<exists>i. q = ToggleStar i")
    case True
    then show ?thesis using toggleStar_inv[OF inv] by auto
  next
    case False
    then have "\<forall>g \<in> set (files (handle now rx s q)). star_origin s g"
      using handle_star_origin by blast
    then show ?thesis using star_origin_inv[OF inv] by (simp add: drive_inv_def)
  qed
next
  fix i f assume f: "findById s i = Some f"
  from findById_mem[OF f] have "file_oid f = i" by simp
  then show "findById (snd (toggleStar now s (Id i))) i
           = Some (f\<lparr>isStarred := \<not> isStarred f,
                     starredAt := (if isStarred f then None else Some now)\<rparr>)"
    using f by (auto simp: toggleStar_def Let_def intro!: findById_save)
next
  assume "well_formed s"
  then show "well_formed (handle now rx s q)" by (rule handle_wf)
next
  assume h: "well_formed s \<and> (\<forall>i. q \<noteq> ToggleStar i)"
  then have "\<forall>g \<in> set (files (handle now rx s q)). star_origin s g"
    using handle_star_origin by blast
  with h show "\<forall>g \<in> set (files (handle now rx s q)). star_kept s g"
    using star_origin_kept by blast
qed

lemmas sample_files = plain_file_def trashed_file_def starred_file_def new_file_def
  sample_upload_def

lemma sample_inv: "drive_inv sample_drive"
  by (simp add: drive_inv_def sample_drive_def star_inv_def sample_files)

lemma sample_wf: "well_formed sample_drive"
  by (simp add: well_formed_def sample_drive_def sample_files)

lemma sample_find: "findById sample_drive 1 = Some plain_file"
  by (simp add: findById_def sample_drive_def sample_files)

lemma sample_find3: "findById sample_drive 3 = Some starred_file"
  by (simp add: findById_def sample_drive_def sample_files)

lemma sample_trash3:
  "files (handle 5000 (\<lambda>p x. False) sample_drive (MoveToTrash (Id 3)))
        = [plain_file, trashed_file, starred_file\<lparr>isDeleted := True, deletedAt := Some 5000\<rparr>]"
  by (simp add: moveToTrash_def findById_def sample_drive_def save_def Let_def sample_files)

lemma sample_upload_new:
  "files (handle 5000 (\<lambda>p x. False) sample_drive (UploadFile (Some sample_upload) NoId))
        = [plain_file, trashed_file, starred_file, new_file 5000 10 sample_upload None]"
  by (simp add: uploadFile_def sample_drive_def Let_def or_null_def valid_file_def new_file_def
      sample_upload_def trim_def white_space_def str_def)

text \<open>
  C9 on the sample drive: starring file 1 at time 5000; moving the starred file 3 to
  the trash, which leaves its star; uploading a file, which gets the id 10 and no star.
\<close>

theorem star_invariant_witness:
  "drive_inv sample_drive \<and> well_formed sample_drive
   \<and> drive_inv (handle 5000 (\<lambda>p x. False) sample_drive (ToggleStar (Id 1)))
   \<and> findById (snd (toggleStar 5000 sample_drive (Id 1))) 1
        = Some (plain_file\<lparr>isStarred := True, starredAt := Some 5000\<rparr>)
   \<and> files (handle 5000 (\<lambda>p x. False) sample_drive (MoveToTrash (Id 3)))
        = [plain_file, trashed_file, starred_file\<lparr>isDeleted := True, deletedAt := Some 5000\<rparr>]
   \<and> star_kept sample_drive (starred_file\<lparr>isDeleted := True, deletedAt := Some 5000\<rparr>)
   \<and> isStarred (starred_file\<lparr>isDeleted := True, deletedAt := Some 5000\<rparr>) = True
   \<and> files (handle 5000 (\<lambda>p x. False) sample_drive (UploadFile (Some sample_upload) NoId))
        = [plain_file, trashed_file, starred_file, new_file 5000 10 sample_upload None]
   \<and> star_kept sample_drive (new_file 5000 10 sample_upload None)
   \<and> well_formed (handle 5000 (\<lambda>p x. False) sample_drive (UploadFile (Some sample_upload) NoId))"
proof -
  have p: "isStarred plain_file = False" by (simp add: sample_files)
  have s3: "isStarred (starred_file\<lparr>isDeleted := True, deletedAt := Some 5000\<rparr>) = True"
    by (simp add: sample_files)
  from star_invariant[of sample_drive 5000 "\<lambda>p x. False" "ToggleStar (Id 1)"]
       star_invariant[of sample_drive 5000 "\<lambda>p x. False" "MoveToTrash (Id 3)"]
       star_invariant[of sample_drive 5000 "\<lambda>p x. False" "UploadFile (Some sample_upload) NoId"]
       sample_inv sample_wf sample_find sample_trash3 sample_upload_new p s3
  show ?thesis by simp
qed

subsection \<open>Listings and trash\<close>

lemma set_sort_desc [simp]: "set (sort_desc k xs) = set xs"
  by (simp add: sort_desc_def)

lemma mset_sort_desc [simp]: "mset (sort_desc k xs) = mset xs"
  by (simp add: sort_desc_def)

lemma set_sort_asc [simp]: "set (sort_asc k xs) = set xs"
  by (simp add: sort_asc_def)

lemma set_limit_to: "set (limit_to n xs) \<subseteq> set xs"
  by (auto simp: limit_to_def dest: in_set_takeD)

lemma entry_file_with_expiry [simp]: "entry_file (with_expiry now f) = f"
  by (simp add: with_expiry_def Let_def)

lemma listed_getFiles: "set (listed (getFiles s fld)) \<subseteq> {f \<in> set (files s). isDeleted f \<noteq> True}"
  by (auto simp: listed_def getFiles_def listing_def fail_def)

lemma listed_getStarredFiles:
  "set (listed (getStarredFiles s)) \<subseteq> {f \<in> set (files s). isDeleted f \<noteq> True}"
  by (auto simp: listed_def getStarredFiles_def listing_def)

lemma listed_getRecentFiles:
  "set (listed (getRecentFiles s n)) \<subseteq> {f \<in> set (files s). isDeleted f \<noteq> True}"
  using set_limit_to[of _ "sort_desc createdAt (filter (\<lambda>f. isDeleted f \<noteq> True) (files s))"]
  by (cases n) (auto simp: listed_def getRecentFiles_def listing_def fail_def)

lemma listed_getTrash:
  "map entry_file (listed (getTrash now s)) = sort_desc deletedAt (filter (\<lambda>f. isDeleted f = True) (files s))"
  by (simp add: listed_def getTrash_def listing_def comp_def)

text \<open>
  The part of claim C10 that holds: \<open>getFiles\<close>, \<open>getStarredFiles\<close> and \<open>getRecentFiles\<close>
  list no file whose \<open>isDeleted\<close> is true; \<open>getTrash\<close> always answers, and lists exactly
  the files of the collection whose \<open>isDeleted\<close> is true, each once; so no file is in one
  of these three listings and in the trash listing.
\<close>

lemma named_listings_exclude_trash:
  "(\<forall>f \<in> set (listed (getFiles s fld)) \<union> set (listed (getStarredFiles s))
            \<union> set (listed (getRecentFiles s n)).
        isDeleted f \<noteq> True \<and> f \<notin> entry_file ` set (listed (getTrash now s)))
   \<and> mset (map entry_file (listed (getTrash now s)))
        = mset (filter (\<lambda>f. isDeleted f = True) (files s))
   \<and> code (getTrash now s) = 200"
proof -
  have trash: "entry_file ` set (listed (getTrash now s)) = {f \<in> set (files s). isDeleted f = True}"
    using arg_cong[OF listed_getTrash[of now s], of set] by simp
  have "mset (map entry_file (listed (getTrash now s)))
        = mset (filter (\<lambda>f. isDeleted f = True) (files s))"
    by (simp only: listed_getTrash mset_sort_desc)
  moreover have "code (getTrash now s) = 200"
    by (simp add: getTrash_def listing_def)
  ultimately show ?thesis
    using listed_getFiles[of s fld] listed_getStarredFiles[of s] listed_getRecentFiles[of s n]
    unfolding trash by blast
qed

lemma sample_getFiles: "listed (getFiles sample_drive NoId) = [starred_file, plain_file]"
  by (simp add: getFiles_def listed_def listing_def sample_drive_def sample_files sort_asc_def
        or_null_def trim_def white_space_def str_def)

lemma sample_getStarredFiles: "listed (getStarredFiles sample_drive) = [starred_file]"
  by (simp add: getStarredFiles_def listed_def listing_def sample_drive_def plain_file_def trashed_file_def
        starred_file_def new_file_def sort_desc_def)

lemma sample_getRecentFiles: "listed (getRecentFiles sample_drive (Some 1)) = [starred_file]"
  by (simp add: getRecentFiles_def listed_def listing_def sample_drive_def plain_file_def trashed_file_def
        starred_file_def new_file_def sort_desc_def limit_to_def)

lemma sample_getTrash: "listed (getTrash 5000 sample_drive) = [\<lparr>entry_file = trashed_file, daysRemaining = 30, expiryDate = 2592003000\<rparr>]"
  by (simp add: getTrash_def listed_def listing_def sample_drive_def plain_file_def trashed_file_def
        starred_file_def new_file_def sort_desc_def with_expiry_def day_ms_def ceil_div_def Let_def)

lemma sample_distinct: "starred_file \<noteq> trashed_file \<and> plain_file \<noteq> trashed_file"
  by (simp add: sample_files)


lemma getDriveContents_files:
  "data (getDriveContents s fld) = Some (ds, fs) \<Longrightarrow> set fs \<subseteq> {f \<in> set (files s). isDeleted f \<noteq> True}"
  by (auto simp: getDriveContents_def listing_def fail_def split: if_splits)

lemma getFolderById_files:
  "data (getFolderById s (Id i)) = Some c \<Longrightarrow>
   set (folder_files c) = {f \<in> set (files s). folder f = Some i}"
  by (auto simp: getFolderById_def listing_def fail_def split: option.splits)

text \<open>
  Claim C10 fails on \<open>getFolderById\<close>, the listing of a folder at \<open>GET /api/folders/:id\<close>:
  its query \<open>File.find({ folder: id })\<close> has no condition on \<open>isDeleted\<close>, which the
  queries of its siblings \<open>getFiles\<close> and \<open>getDriveContents\<close> have. On the sample drive
  the file in the trash is listed by \<open>getFolderById\<close> for its folder and by \<open>getTrash\<close>,
  where \<open>getDriveContents\<close> for the same folder lists no file.
\<close>

theorem getFolderById_lists_trashed:
  "getFolderById sample_drive (Id 9) =
     \<lparr>code = 200, success = True, message = None,
      data = Some \<lparr>the_folder = docs_folder, populated_parent = None, subfolders = [],
                   folder_files = [trashed_file]\<rparr>\<rparr>
   \<and> map entry_file (listed (getTrash 5000 sample_drive)) = [trashed_file]
   \<and> isDeleted trashed_file = True
   \<and> data (getDriveContents sample_drive (Id 9)) = Some ([], [])"
  by (simp add: getFolderById_def getDriveContents_def getTrash_def listed_def listing_def
      folder_findById_def sample_drive_def docs_folder_def sample_files sort_asc_def sort_desc_def
      or_null_def with_expiry_def Let_def)

text \<open>An upload with a blank original name fails validation: 500, and nothing is stored.\<close>

lemma uploadFile_blank_name:
  "uploadFile 5000 sample_drive (Some blank_upload) NoId =
     (fail 500 ''Failed to upload file'', sample_drive\<lparr>disk := disk sample_drive - {str ''17-notes.txt''}\<rparr>)"
  by (simp add: uploadFile_def blank_upload_def sample_upload_def new_file_def valid_file_def
      or_null_def unlink_if_exists_def Let_def trim_def white_space_def str_def)

section \<open>Properties of the retrieval core\<close>

lemma split_words_Nil: "split_words cur xs = [] \<longleftrightarrow> cur = [] \<and> (\<forall>c \<in> set xs. is_ws c)"
  by (induction xs arbitrary: cur) auto

lemma space_ws: "is_ws CHR '' ''"
  by (simp add: is_ws_def)

lemma join_Cons: "ys \<noteq> [] \<Longrightarrow> join sep (x # ys) = x @ sep @ join sep ys"
  by (cases ys) simp_all

lemma join_split_words:
  "normalized t \<Longrightarrow> join '' '' (split_words cur t) = rev cur @ t"
proof (induction t arbitrary: cur rule: normalized.induct)
  case 1
  then show ?case by simp
next
  case (2 c)
  then show ?case by simp
next
  case (3 c d cs)
  show ?case
  proof (cases "d = CHR '' ''")
    case True
    with "3.prems" have c: "\<not> is_ws c" and ne: "cs \<noteq> []" and n: "normalized cs" by simp_all
    from ne n have "\<not> is_ws (hd cs)" by (cases cs rule: normalized.cases) (auto split: if_splits)
    with ne have rest: "split_words [] cs \<noteq> []"
      by (auto simp: split_words_Nil intro: bexI[of _ "hd cs"])
    have "join '' '' (split_words [] cs) = cs"
      using "3.IH"(1)[OF True _ , of "[]"] ne n by simp
    with c True rest show ?thesis by (simp add: space_ws join_Cons)
  next
    case False
    with "3.prems" have c: "\<not> is_ws c" and n: "normalized (d # cs)" by simp_all
    from "3.IH"(2)[OF False n, of "c # cur"] c show ?thesis by simp
  qed
qed

lemma detokenize_tokenize: "normalized t \<Longrightarrow> detokenize (tokenize t) = t"
  by (simp add: detokenize_def tokenize_def join_split_words)

text \<open>
  Claim C3. For a valid configuration and a text of at most \<open>chunk_size_tokens\<close> tokens,
  \<open>chunk\<close> produces exactly one chunk; it spans all the tokens of the text, from offset 0,
  and its text is the tokens of the whole text; for a normalized text, the text itself.
\<close>

theorem chunk_small_text:
  assumes "0 \<le> ov" "ov < cs" "int (length (tokenize T)) \<le> cs"
  shows "chunk T cs ov =
     Inr [\<lparr>chunk_id = 0, chunk_text = detokenize (tokenize T), token_count = length (tokenize T),
           start_offset = 0, end_offset = length (tokenize T)\<rparr>]
     \<and> (normalized T \<longrightarrow> detokenize (tokenize T) = T)"
  using assms by (simp add: chunk_def window_chunk_def Let_def detokenize_tokenize)

lemma tok10: "tokenize ''a b c d e f g h i j'' = [''a'', ''b'', ''c'', ''d'', ''e'', ''f'', ''g'', ''h'', ''i'', ''j'']"
  by (simp add: tokenize_def is_ws_def)

lemma norm10: "normalized ''a b c d e f g h i j''"
  by (simp add: is_ws_def)

text \<open>The scenario of section 8: 15 tokens in windows of 5 with an overlap of 1 make
  \<open>\<lceil>(15 - 1) / (5 - 1)\<rceil> = 4\<close> chunks, the last one shorter.\<close>

lemma chunk_scenario:
  "chunk ''a b c d e f g h i j k l m n o'' 5 1 =
     Inr [\<lparr>chunk_id = 0, chunk_text = ''a b c d e'', token_count = 5, start_offset = 0, end_offset = 5\<rparr>,
          \<lparr>chunk_id = 1, chunk_text = ''e f g h i'', token_count = 5, start_offset = 4, end_offset = 9\<rparr>,
          \<lparr>chunk_id = 2, chunk_text = ''i j k l m'', token_count = 5, start_offset = 8, end_offset = 13\<rparr>,
          \<lparr>chunk_id = 3, chunk_text = ''m n o'', token_count = 3, start_offset = 12, end_offset = 15\<rparr>]"
  by (simp add: chunk_def tokenize_def is_ws_def window_chunk_def detokenize_def Let_def)

text \<open>C3 at a text of exactly \<open>chunk_size_tokens = 10\<close> tokens, with an overlap of 2.\<close>

theorem chunk_small_text_witness:
  "chunk ''a b c d e f g h i j'' 10 2 =
     Inr [\<lparr>chunk_id = 0, chunk_text = ''a b c d e f g h i j'', token_count = 10,
           start_offset = 0, end_offset = 10\<rparr>]
   \<and> length (tokenize ''a b c d e f g h i j'') = 10
   \<and> normalized ''a b c d e f g h i j''"
proof -
  have len: "int (length (tokenize ''a b c d e f g h i j'')) \<le> 10" by (simp add: tok10)
  from chunk_small_text[of 2 10 "''a b c d e f g h i j''", OF _ _ len] norm10
  show ?thesis by (simp add: tok10)
qed

lemma rank_key_le: "rank_key a \<le> rank_key b \<longleftrightarrow> ranked_before a b"
  by (auto simp: rank_key_def ranked_before_def less_eq_prod_def)

lemma ranked_sort: "sorted_wrt ranked_before (sort_key rank_key xs)"
proof -
  have "sorted (map rank_key (sort_key rank_key xs))" by (rule sorted_sort_key)
  then show ?thesis by (simp add: sorted_map rank_key_le)
qed

lemma ranked_take: "sorted_wrt ranked_before (take k (sort_key rank_key xs))"
  using ranked_sort[of xs] by (rule sorted_wrt_take)

text \<open>
  Claim C1. For a document that has an index, \<open>search\<close> returns a result of at most \<open>k\<close>
  entries; when \<open>k\<close> is at least the number of entries of the index, the result holds
  exactly the entries of the index, each with its score; and the result is in the order
  of descending score, ties in the order of ascending \<open>chunk_id\<close>.
\<close>

theorem search_top_k:
  assumes "table doc = Some es"
  shows "\<exists>r. search table doc q k = Inr r
            \<and> length r \<le> k
            \<and> (length es \<le> k \<longrightarrow> mset r = mset (scored q es))
            \<and> sorted_wrt ranked_before r"
  using assms by (simp add: search_def ranked_take scored_def)

lemma cos_same: "cosine [1, 0] [1, 0] = 1"
  by (simp add: cosine_def l2_normalize_def dot_def)

lemma cos_orth: "cosine [1, 0] [0, 1] = 0"
  by (simp add: cosine_def l2_normalize_def dot_def)

lemma sample_scored: "scored [1, 0] [sample_entry 7 [1, 0], sample_entry 4 [0, 1], sample_entry 3 [1, 0]]
   = [(sample_chunk 7, 1), (sample_chunk 4, 0), (sample_chunk 3, 1)]"
  by (simp add: scored_def sample_entry_def cos_same cos_orth)

lemma sample_sorted:
  "sort_key rank_key [(sample_chunk 7, 1), (sample_chunk 4, 0), (sample_chunk 3, 1)]
     = [(sample_chunk 3, 1), (sample_chunk 7, 1), (sample_chunk 4, 0)]"
  by (simp add: rank_key_def sample_chunk_def)

lemma sample_search2: "search sample_table ''d1'' [1, 0] 2
   = Inr [(sample_chunk 3, 1), (sample_chunk 7, 1)]"
  unfolding search_def sample_table_def
  by (simp only: fun_upd_same option.case sample_scored sample_sorted) simp

lemma sample_search5: "search sample_table ''d1'' [1, 0] 5
   = Inr [(sample_chunk 3, 1), (sample_chunk 7, 1), (sample_chunk 4, 0)]"
  unfolding search_def sample_table_def
  by (simp only: fun_upd_same option.case sample_scored sample_sorted) simp

text \<open>C1 on an index of three entries, two of them with the same score, at \<open>k = 2\<close> and
  \<open>k = 5\<close>.\<close>

theorem search_top_k_witness:
  "sample_table ''d1'' = Some [sample_entry 7 [1, 0], sample_entry 4 [0, 1], sample_entry 3 [1, 0]]
   \<and> search sample_table ''d1'' [1, 0] 2 = Inr [(sample_chunk 3, 1), (sample_chunk 7, 1)]
   \<and> search sample_table ''d1'' [1, 0] 5
       = Inr [(sample_chunk 3, 1), (sample_chunk 7, 1), (sample_chunk 4, 0)]
   \<and> mset [(sample_chunk 3, 1::real), (sample_chunk 7, 1), (sample_chunk 4, 0)]
       = mset (scored [1, 0] [sample_entry 7 [1, 0], sample_entry 4 [0, 1], sample_entry 3 [1, 0]])
   \<and> sorted_wrt ranked_before [(sample_chunk 3, 1), (sample_chunk 7, 1), (sample_chunk 4, 0)]"
proof -
  have t: "sample_table ''d1'' = Some [sample_entry 7 [1, 0], sample_entry 4 [0, 1], sample_entry 3 [1, 0]]"
    by (simp add: sample_table_def)
  from search_top_k[of sample_table "''d1''" _ "[1, 0]" 2, OF t]
       search_top_k[of sample_table "''d1''" _ "[1, 0]" 5, OF t] t sample_search2 sample_search5
  show ?thesis by simp
qed

end
